theory Spec2Isabelle
  imports Complex_Main
begin

section \<open>Numbers and truthiness\<close>

text \<open>
  The values of \<^verbatim>\<open>src/utils/ImageProcessor.js\<close> are JavaScript numbers. They are
  modelled as exact rationals: every size, bound and dimension the program reads is an
  integer, and the quotients it forms from them are taken exactly. An argument that may
  be \<^verbatim>\<open>undefined\<close> is an \<open>option\<close>. Division by zero (an image of height 0) gives
  \<^verbatim>\<open>Infinity\<close> or \<^verbatim>\<open>NaN\<close> in the program and \<open>0\<close> here, so every statement below
  that divides carries the hypothesis that the divisor is positive.

  The program computes in binary64, where a quotient and a product are each rounded in
  the last place. For dimensions up to \<open>2\<^sup>2\<^sup>4\<close> that error is too small to move a value
  across an integer or a half-integer that it does not equal exactly. It matters in one
  place: where the exact value passed to \<^verbatim>\<open>Math.round\<close> lies exactly halfway between
  two integers, the program may return either of them (for 1001 by 2000 bounded by 1500
  and 1000 the exact width is 500.5, and the program returns 500). No general statement
  about \<open>calculateDimensions\<close> below fixes the direction of rounding at such a value:
  they say that a result is within \<open>1 / 2\<close> of the exact value, or bounded by an
  integer, and their closed examples pass no halfway value to \<^verbatim>\<open>Math.round\<close>.
\<close>

type_synonym num = rat

text \<open>\<^verbatim>\<open>if (x)\<close> on a number or \<^verbatim>\<open>undefined\<close>: \<^verbatim>\<open>undefined\<close> and \<open>0\<close> are falsy.\<close>

definition truthy :: "num option \<Rightarrow> bool" where
  "truthy x = (case x of None \<Rightarrow> False | Some v \<Rightarrow> v \<noteq> 0)"

text \<open>\<^verbatim>\<open>x || d\<close> on a number or \<^verbatim>\<open>undefined\<close>.\<close>

definition or_default :: "num option \<Rightarrow> num \<Rightarrow> num" where
  "or_default x d = (case x of None \<Rightarrow> d | Some v \<Rightarrow> if v \<noteq> 0 then v else d)"

text \<open>\<^verbatim>\<open>Math.round\<close> of an exact value: the nearest integer, a half rounded up.\<close>

definition Math_round :: "num \<Rightarrow> num" where
  "Math_round x = of_int \<lfloor>x + 1 / 2\<rfloor>"

section \<open>calculateDimensions\<close>

record dimensions =
  width :: num
  height :: num

text \<open>
  The width pass and the height pass of the aspect-locked branch, each on the current
  pair \<open>(width, height)\<close>; a bound that is \<^verbatim>\<open>undefined\<close> or \<open>0\<close> is skipped
  (\<^verbatim>\<open>if (maxWidth && width > maxWidth)\<close>).
\<close>

definition widthPass :: "num \<Rightarrow> num option \<Rightarrow> num \<times> num \<Rightarrow> num \<times> num" where
  "widthPass aspectRatio maxWidth wh =
     (case maxWidth of
        None \<Rightarrow> wh
      | Some mw \<Rightarrow>
          if mw \<noteq> 0 \<and> fst wh > mw then (mw, mw / aspectRatio) else wh)"

definition heightPass :: "num \<Rightarrow> num option \<Rightarrow> num \<times> num \<Rightarrow> num \<times> num" where
  "heightPass aspectRatio maxHeight wh =
     (case maxHeight of
        None \<Rightarrow> wh
      | Some mh \<Rightarrow>
          if mh \<noteq> 0 \<and> snd wh > mh then (mh * aspectRatio, mh) else wh)"

text \<open>\<^verbatim>\<open>if (maxWidth) width = Math.min(width, maxWidth)\<close> of the unlocked branch.\<close>

definition clampTo :: "num option \<Rightarrow> num \<Rightarrow> num" where
  "clampTo bound v =
     (case bound of None \<Rightarrow> v | Some b \<Rightarrow> if b \<noteq> 0 then min v b else v)"

text \<open>
  The last parameter has the default \<^verbatim>\<open>maintainAspectRatio = true\<close>, which JavaScript
  applies when the argument is \<^verbatim>\<open>undefined\<close>. With no truthy bound the original pair is
  returned as it is, unrounded.
\<close>

definition calculateDimensions ::
  "num \<Rightarrow> num \<Rightarrow> num option \<Rightarrow> num option \<Rightarrow> bool option \<Rightarrow> dimensions" where
  "calculateDimensions originalWidth originalHeight maxWidth maxHeight maintainAspectRatio =
     (if \<not> truthy maxWidth \<and> \<not> truthy maxHeight
      then \<lparr>width = originalWidth, height = originalHeight\<rparr>
      else if (case maintainAspectRatio of None \<Rightarrow> True | Some b \<Rightarrow> b)
      then
        let aspectRatio = originalWidth / originalHeight;
            wh = heightPass aspectRatio maxHeight
                   (widthPass aspectRatio maxWidth (originalWidth, originalHeight))
        in \<lparr>width = Math_round (fst wh), height = Math_round (snd wh)\<rparr>
      else
        \<lparr>width = Math_round (clampTo maxWidth originalWidth),
         height = Math_round (clampTo maxHeight originalHeight)\<rparr>)"

text \<open>
  The contract \<open>calculate(originalW, originalH, maxW, maxH, lockAspect)\<close> of the
  specification is \<open>calculateDimensions\<close> at integer arguments.
\<close>

definition calculate ::
  "nat \<Rightarrow> nat \<Rightarrow> nat option \<Rightarrow> nat option \<Rightarrow> bool \<Rightarrow> dimensions" where
  "calculate originalW originalH maxW maxH lockAspect =
     calculateDimensions (of_nat originalW) (of_nat originalH)
       (map_option of_nat maxW) (map_option of_nat maxH) (Some lockAspect)"

text \<open>
  The values of the variables \<^verbatim>\<open>width\<close> and \<^verbatim>\<open>height\<close> when \<open>calculate\<close> reaches one
  of its two \<^verbatim>\<open>return\<close> statements, before any rounding.
\<close>

definition beforeRounding ::
  "nat \<Rightarrow> nat \<Rightarrow> nat option \<Rightarrow> nat option \<Rightarrow> bool \<Rightarrow> num \<times> num" where
  "beforeRounding originalW originalH maxW maxH lockAspect =
     (let ow = of_nat originalW; oh = of_nat originalH;
          bw = map_option of_nat maxW; bh = map_option of_nat maxH
      in if \<not> truthy bw \<and> \<not> truthy bh then (ow, oh)
         else if lockAspect then heightPass (ow / oh) bh (widthPass (ow / oh) bw (ow, oh))
         else (clampTo bw ow, clampTo bh oh))"

section \<open>Strings\<close>

text \<open>\<^verbatim>\<open>s.includes(sub)\<close>: \<open>sub\<close> occurs in \<open>s\<close> as a contiguous substring.\<close>

fun startsWith :: "string \<Rightarrow> string \<Rightarrow> bool" where
  "startsWith s [] = True"
| "startsWith [] (c # cs) = False"
| "startsWith (x # xs) (c # cs) = (x = c \<and> startsWith xs cs)"

fun str_includes :: "string \<Rightarrow> string \<Rightarrow> bool" where
  "str_includes [] sub = (sub = [])"
| "str_includes (x # xs) sub = (startsWith (x # xs) sub \<or> str_includes xs sub)"

text \<open>
  \<^verbatim>\<open>name.replace(/\.[^/.]+$/, ext)\<close>: the pattern can only match at the last dot of the
  name, and does so when at least one character follows it and none of them is a slash.
\<close>

definition replaceExtension :: "string \<Rightarrow> string \<Rightarrow> string" where
  "replaceExtension name ext =
     (let r = rev name;
          suffix = takeWhile (\<lambda>c. c \<noteq> CHR ''.'') r
      in if length suffix < length r \<and> suffix \<noteq> [] \<and> CHR ''/'' \<notin> set suffix
         then rev (drop (length suffix + 1) r) @ ext
         else name)"

section \<open>The browser and the document library\<close>

text \<open>
  A \<^verbatim>\<open>Blob\<close> (a \<^verbatim>\<open>File\<close> is one) has a byte size and a MIME type; its bytes are an
  opaque content number. A loaded \<^verbatim>\<open>Image\<close> has its natural size.
\<close>

record blob =
  blob_size :: nat
  blob_type :: string
  blob_content :: nat

record image =
  img_width :: num
  img_height :: num

text \<open>
  What the program does to a canvas before it encodes it: the size it assigns, whether it
  fills the surface white first, the blob whose image it draws, and the size given to
  \<^verbatim>\<open>drawImage\<close> (\<open>None\<close> for the three-argument call, which draws at natural size).
\<close>

record canvas =
  cv_width :: num
  cv_height :: num
  cv_white :: bool
  cv_source :: blob
  cv_drawSize :: "(num \<times> num) option"

record placement =
  p_x :: num
  p_y :: num
  finalWidth :: num
  finalHeight :: num

text \<open>
  The calls that leave the program, in order: \<^verbatim>\<open>canvas.toBlob(cb, type, quality)\<close>,
  \<^verbatim>\<open>canvas.toDataURL(type, quality)\<close> and \<^verbatim>\<open>pdf.addImage(data, format, x, y, w, h)\<close>.
  Every operation below returns this list beside its result.
\<close>

datatype call =
  ToBlob canvas string "num option"
| ToDataURL canvas string "num option"
| AddImage string string placement

fun call_quality :: "call \<Rightarrow> num option" where
  "call_quality (ToBlob c t q) = q"
| "call_quality (ToDataURL c t q) = q"
| "call_quality (AddImage d f p) = None"

text \<open>
  The messages of the errors the program creates, and an error thrown by the document
  library, which the program passes on.
\<close>

datatype error =
  ConversionNotSupported string string
    \<comment> \<open>\<^verbatim>\<open>Conversion from ${fromType.toUpperCase()} to ${toType.toUpperCase()} is not supported\<close>\<close>
| NoConversionOrCompressionRequested
    \<comment> \<open>\<^verbatim>\<open>No conversion or compression requested\<close>\<close>
| CouldNotGetCanvasContext
| FailedToLoadImage
| FailedToLoadImageForThumbnail
| FailedToCompressImage
| FailedToCreateBlob
| LibraryError string

text \<open>
  A promise resolves, rejects, or never settles (\<open>Pending\<close>: an \<^verbatim>\<open>await\<close> on an
  \<^verbatim>\<open>onload\<close> that never fires).
\<close>

datatype 'a promise = Resolved 'a | Rejected error | Pending

text \<open>
  The environment: what the browser and jsPDF answer. \<open>loadImage\<close> is \<open>None\<close> when
  \<^verbatim>\<open>onerror\<close> fires, \<open>getContext2d\<close> is false when \<^verbatim>\<open>canvas.getContext('2d')\<close> is null,
  \<open>toBlob\<close> is \<open>None\<close> when the callback receives null. The page size of \<^verbatim>\<open>new jsPDF()\<close>
  is a parameter, \<open>pdf_output\<close> is the document with one image placed on its page,
  or the message of the error that jsPDF throws.
\<close>

record browser =
  loadImage :: "blob \<Rightarrow> image option"
  getContext2d :: bool
  toBlob :: "canvas \<Rightarrow> string \<Rightarrow> num option \<Rightarrow> blob option"
  toDataURL :: "canvas \<Rightarrow> string \<Rightarrow> num option \<Rightarrow> string"
  createObjectURL :: "blob \<Rightarrow> string"
  pdf_getWidth :: num
  pdf_getHeight :: num
  pdf_output :: "string \<Rightarrow> placement \<Rightarrow> string + blob"

section \<open>Settings and statistics\<close>

text \<open>
  The compression settings object; a field that may be missing is an \<open>option\<close>. The
  program only tests \<^verbatim>\<open>enableCompression\<close> for truthiness, so it is a \<open>bool\<close>.
\<close>

record compressionSettings =
  s_quality :: "num option"
  s_maxWidth :: "num option"
  s_maxHeight :: "num option"
  s_maintainAspectRatio :: "bool option"
  s_enableCompression :: bool

text \<open>
  The \<^verbatim>\<open>stats\<close> object of \<open>compressImage\<close>, \<open>convertImageFormat\<close> and
  \<open>convertImageToPDF\<close>. The object literal of \<open>convertImageToPDF\<close> has three fields
  only, so the others are optional.
\<close>

record stats =
  st_originalSize :: nat
  st_compressedSize :: nat
  st_compressionRatio :: "num option"
  st_quality :: "num option"
  st_originalDimensions :: "dimensions option"
  st_newDimensions :: "dimensions option"

text \<open>\<^verbatim>\<open>((a - b) / a) * 100\<close> on two byte sizes.\<close>

definition ratio :: "nat \<Rightarrow> nat \<Rightarrow> num" where
  "ratio originalSize finalSize =
     ((of_nat originalSize - of_nat finalSize) / of_nat originalSize) * 100"

section \<open>compressImage\<close>

text \<open>
  The image is loaded, drawn at the calculated size (on white unless the file is a PNG)
  and encoded with \<^verbatim>\<open>settings.quality\<close> as it is.
\<close>

definition compressImage ::
  "browser \<Rightarrow> blob \<Rightarrow> compressionSettings \<Rightarrow> call list \<times> (blob \<times> stats) promise" where
  "compressImage env file settings =
     (case loadImage env file of
        None \<Rightarrow> ([], Rejected FailedToLoadImage)
      | Some img \<Rightarrow>
          if \<not> getContext2d env then ([], Rejected CouldNotGetCanvasContext)
          else
            let d = calculateDimensions (img_width img) (img_height img)
                      (s_maxWidth settings) (s_maxHeight settings)
                      (s_maintainAspectRatio settings);
                outputFormat =
                  (if str_includes (blob_type file) ''png'' then ''image/png''
                   else ''image/jpeg'');
                cv = \<lparr>cv_width = width d, cv_height = height d,
                      cv_white = (outputFormat = ''image/jpeg''),
                      cv_source = file, cv_drawSize = Some (width d, height d)\<rparr>;
                calls = [ToBlob cv outputFormat (s_quality settings)]
            in case toBlob env cv outputFormat (s_quality settings) of
                 Some b \<Rightarrow>
                   (calls,
                    Resolved (b,
                      \<lparr>st_originalSize = blob_size file,
                       st_compressedSize = blob_size b,
                       st_compressionRatio = Some (ratio (blob_size file) (blob_size b)),
                       st_quality = s_quality settings,
                       st_originalDimensions =
                         Some \<lparr>width = img_width img, height = img_height img\<rparr>,
                       st_newDimensions = Some d\<rparr>))
               | None \<Rightarrow> (calls, Rejected FailedToCompressImage))"

section \<open>convertImageToPDF\<close>

text \<open>The block \<^verbatim>\<open>Calculate dimensions to fit PDF page\<close>, up to \<open>x\<close> and \<open>y\<close>.\<close>

definition pdfPlacement :: "num \<Rightarrow> num \<Rightarrow> num \<Rightarrow> num \<Rightarrow> placement" where
  "pdfPlacement pdfWidth pdfHeight imageWidth imageHeight =
     (let imgAspectRatio = imageWidth / imageHeight;
          pdfAspectRatio = pdfWidth / pdfHeight;
          wh = (if imgAspectRatio > pdfAspectRatio
                then (let fw = pdfWidth - 20 in (fw, fw / imgAspectRatio))
                else (let fh = pdfHeight - 20 in (fh * imgAspectRatio, fh)))
      in \<lparr>p_x = (pdfWidth - fst wh) / 2, p_y = (pdfHeight - snd wh) / 2,
          finalWidth = fst wh, finalHeight = snd wh\<rparr>)"

text \<open>
  From the processed image on: draw it, place it, encode it as JPEG with
  \<^verbatim>\<open>compressionSettings?.quality || 0.95\<close>, add it to the page and write the document.
  \<open>compressionStats\<close> is what the compression step left (\<open>None\<close> for \<^verbatim>\<open>null\<close>).
\<close>

definition assemblePDF ::
  "browser \<Rightarrow> blob \<Rightarrow> compressionSettings \<Rightarrow> call list \<Rightarrow> blob \<Rightarrow> image \<Rightarrow> stats option
     \<Rightarrow> call list \<times> (blob \<times> stats) promise" where
  "assemblePDF env imageFile compressionSettings calls source processedImage compressionStats =
     (let cv = \<lparr>cv_width = img_width processedImage, cv_height = img_height processedImage,
                cv_white = False, cv_source = source, cv_drawSize = None\<rparr>;
          pl = pdfPlacement (pdf_getWidth env) (pdf_getHeight env)
                 (img_width processedImage) (img_height processedImage);
          q = Some (or_default (s_quality compressionSettings) (95 / 100));
          imgData = toDataURL env cv ''image/jpeg'' q;
          calls' = calls @ [ToDataURL cv ''image/jpeg'' q, AddImage imgData ''JPEG'' pl]
      in case pdf_output env imgData pl of
           Inl msg \<Rightarrow> (calls', Rejected (LibraryError msg))
         | Inr pdfBlob \<Rightarrow>
             (calls',
              Resolved (pdfBlob,
                case compressionStats of
                  Some st \<Rightarrow> st
                | None \<Rightarrow>
                    \<lparr>st_originalSize = blob_size imageFile,
                     st_compressedSize = blob_size pdfBlob,
                     st_compressionRatio = None,
                     st_quality = q,
                     st_originalDimensions = None,
                     st_newDimensions = None\<rparr>)))"

text \<open>
  With compression enabled the file goes through \<open>compressImage\<close> first and the result
  is loaded again; that second load has no \<^verbatim>\<open>onerror\<close> handler, so the promise stays
  pending if it fails.
\<close>

definition convertImageToPDF ::
  "browser \<Rightarrow> blob \<Rightarrow> compressionSettings \<Rightarrow> call list \<times> (blob \<times> stats) promise" where
  "convertImageToPDF env imageFile compressionSettings =
     (case loadImage env imageFile of
        None \<Rightarrow> ([], Rejected FailedToLoadImage)
      | Some img \<Rightarrow>
          if \<not> getContext2d env then ([], Rejected CouldNotGetCanvasContext)
          else if s_enableCompression compressionSettings then
            (case compressImage env imageFile compressionSettings of
               (calls, Resolved (compressed, st)) \<Rightarrow>
                 (case loadImage env compressed of
                    None \<Rightarrow> (calls, Pending)
                  | Some compressedImg \<Rightarrow>
                      assemblePDF env imageFile compressionSettings calls
                        compressed compressedImg (Some st))
             | (calls, Rejected e) \<Rightarrow> (calls, Rejected e)
             | (calls, Pending) \<Rightarrow> (calls, Pending))
          else assemblePDF env imageFile compressionSettings [] imageFile img None)"

section \<open>convertImageFormat\<close>

definition convertImageFormat ::
  "browser \<Rightarrow> blob \<Rightarrow> string \<Rightarrow> string \<Rightarrow> compressionSettings
     \<Rightarrow> call list \<times> (blob \<times> stats) promise" where
  "convertImageFormat env file fromType toType compressionSettings =
     (case loadImage env file of
        None \<Rightarrow> ([], Rejected FailedToLoadImage)
      | Some img \<Rightarrow>
          if \<not> getContext2d env then ([], Rejected CouldNotGetCanvasContext)
          else
            let d = calculateDimensions (img_width img) (img_height img)
                      (s_maxWidth compressionSettings) (s_maxHeight compressionSettings)
                      (s_maintainAspectRatio compressionSettings);
                cv = \<lparr>cv_width = width d, cv_height = height d,
                      cv_white = (toType = ''jpg'' \<or> toType = ''jpeg''),
                      cv_source = file, cv_drawSize = Some (width d, height d)\<rparr>;
                outputFormat = (if toType = ''png'' then ''image/png'' else ''image/jpeg'');
                q = (if s_enableCompression compressionSettings
                     then s_quality compressionSettings
                     else if toType = ''png'' then None else Some (95 / 100));
                calls = [ToBlob cv outputFormat q]
            in case toBlob env cv outputFormat q of
                 Some b \<Rightarrow>
                   (calls,
                    Resolved (b,
                      \<lparr>st_originalSize = blob_size file,
                       st_compressedSize = blob_size b,
                       st_compressionRatio = Some (ratio (blob_size file) (blob_size b)),
                       st_quality = Some (or_default q 1),
                       st_originalDimensions =
                         Some \<lparr>width = img_width img, height = img_height img\<rparr>,
                       st_newDimensions = Some d\<rparr>))
               | None \<Rightarrow> (calls, Rejected FailedToCreateBlob))"

section \<open>generateThumbnail\<close>

text \<open>The parameter has the default \<^verbatim>\<open>maxSize = 120\<close>; the promise resolves to a data URL.\<close>

definition thumbnailSize :: "num \<Rightarrow> num \<Rightarrow> num \<Rightarrow> num \<times> num" where
  "thumbnailSize imageWidth imageHeight maxSize =
     (let aspectRatio = imageWidth / imageHeight
      in if aspectRatio > 1 then (maxSize, maxSize / aspectRatio)
         else (maxSize * aspectRatio, maxSize))"

definition generateThumbnail ::
  "browser \<Rightarrow> blob \<Rightarrow> num option \<Rightarrow> call list \<times> string promise" where
  "generateThumbnail env file maxSizeArg =
     (let maxSize = (case maxSizeArg of None \<Rightarrow> 120 | Some m \<Rightarrow> m)
      in case loadImage env file of
           None \<Rightarrow> ([], Rejected FailedToLoadImageForThumbnail)
         | Some img \<Rightarrow>
             if \<not> getContext2d env then ([], Rejected CouldNotGetCanvasContext)
             else
               let wh = thumbnailSize (img_width img) (img_height img) maxSize;
                   cv = \<lparr>cv_width = fst wh, cv_height = snd wh, cv_white = False,
                         cv_source = file, cv_drawSize = Some wh\<rparr>
               in ([ToDataURL cv ''image/jpeg'' (Some (8 / 10))],
                   Resolved (toDataURL env cv ''image/jpeg'' (Some (8 / 10)))))"

section \<open>convertImage\<close>

record conversion =
  c_from :: string
  c_to :: string
  clientSide :: bool
  supportsCompression :: bool

definition supportedConversions :: "conversion list" where
  "supportedConversions =
     [\<lparr>c_from = ''jpg'', c_to = ''png'', clientSide = True, supportsCompression = True\<rparr>,
      \<lparr>c_from = ''jpeg'', c_to = ''png'', clientSide = True, supportsCompression = True\<rparr>,
      \<lparr>c_from = ''png'', c_to = ''jpg'', clientSide = True, supportsCompression = True\<rparr>,
      \<lparr>c_from = ''png'', c_to = ''jpeg'', clientSide = True, supportsCompression = True\<rparr>,
      \<lparr>c_from = ''jpg'', c_to = ''pdf'', clientSide = True, supportsCompression = True\<rparr>,
      \<lparr>c_from = ''jpeg'', c_to = ''pdf'', clientSide = True, supportsCompression = True\<rparr>,
      \<lparr>c_from = ''png'', c_to = ''pdf'', clientSide = True, supportsCompression = True\<rparr>]"

record imageItem =
  item_id :: string
  item_name :: string
  item_file :: blob

text \<open>The \<^verbatim>\<open>compressionStats\<close> object of the result.\<close>

record compressionStats =
  cs_originalSize :: nat
  cs_finalSize :: nat
  cs_compressionRatio :: num
  cs_quality :: num

record conversionResult =
  r_id :: string
  r_originalName :: string
  r_convertedName :: string
  r_blob :: blob
  r_url :: string
  r_fromType :: string
  r_toType :: string
  r_success :: bool
  r_error :: "error option"
  r_compressionStats :: "compressionStats option"

definition normalizeType :: "string \<Rightarrow> string" where
  "normalizeType t = (if t = ''jpeg'' then ''jpg'' else t)"

text \<open>The predicate of \<^verbatim>\<open>supportedConversions.find\<close>, on the normalized types.\<close>

definition matches :: "string \<Rightarrow> string \<Rightarrow> conversion \<Rightarrow> bool" where
  "matches normalizedFromType normalizedToType c =
     ((c_from c = normalizedFromType \<or> (normalizedFromType = ''jpg'' \<and> c_from c = ''jpeg''))
      \<and> (c_to c = normalizedToType \<or> (normalizedToType = ''jpg'' \<and> c_to c = ''jpeg'')))"

text \<open>
  The step inside \<^verbatim>\<open>try\<close> that chooses the operation: its calls, its promise and the
  file name of the result.
\<close>

definition dispatch ::
  "browser \<Rightarrow> imageItem \<Rightarrow> string \<Rightarrow> string \<Rightarrow> compressionSettings
     \<Rightarrow> call list \<times> (blob \<times> stats) promise \<times> string" where
  "dispatch env item fromType toType compressionSettings =
     (if toType = ''pdf'' then
        (let (calls, p) = convertImageToPDF env (item_file item) compressionSettings
         in (calls, p, replaceExtension (item_name item) ''.pdf''))
      else if normalizeType fromType \<noteq> normalizeType toType
              \<or> s_enableCompression compressionSettings then
        (let (calls, p) =
               convertImageFormat env (item_file item) fromType toType compressionSettings
         in (calls, p, replaceExtension (item_name item) (''.'' @ toType)))
      else ([], Rejected NoConversionOrCompressionRequested, []))"

text \<open>
  The error of an unsupported pair is thrown before \<^verbatim>\<open>try\<close>, so the promise of
  \<open>convertImage\<close> rejects with it. An error of the operation is caught and becomes a
  resolved result with \<^verbatim>\<open>success: false\<close>. The operations always hand back a stats
  object, so a successful result always has \<^verbatim>\<open>compressionStats\<close>.
\<close>

definition convertImage ::
  "browser \<Rightarrow> imageItem \<Rightarrow> string \<Rightarrow> string \<Rightarrow> compressionSettings
     \<Rightarrow> call list \<times> conversionResult promise" where
  "convertImage env item fromType toType compressionSettings =
     (case find (matches (normalizeType fromType) (normalizeType toType)) supportedConversions of
        None \<Rightarrow> ([], Rejected (ConversionNotSupported fromType toType))
      | Some c \<Rightarrow>
          let originalSize = blob_size (item_file item)
          in case dispatch env item fromType toType compressionSettings of
               (calls, Resolved (b, st), fileName) \<Rightarrow>
                 (calls,
                  Resolved
                    \<lparr>r_id = item_id item, r_originalName = item_name item,
                     r_convertedName = fileName, r_blob = b,
                     r_url = createObjectURL env b,
                     r_fromType = fromType, r_toType = toType,
                     r_success = True, r_error = None,
                     r_compressionStats =
                       Some \<lparr>cs_originalSize = originalSize,
                             cs_finalSize = blob_size b,
                             cs_compressionRatio = ratio originalSize (blob_size b),
                             cs_quality = or_default (s_quality compressionSettings) 1\<rparr>\<rparr>)
             | (calls, Rejected e, fileName) \<Rightarrow>
                 (calls,
                  Resolved
                    \<lparr>r_id = item_id item, r_originalName = item_name item,
                     r_convertedName = [],
                     r_blob = \<lparr>blob_size = 0, blob_type = [], blob_content = 0\<rparr>,
                     r_url = [],
                     r_fromType = fromType, r_toType = toType,
                     r_success = False, r_error = Some e,
                     r_compressionStats = None\<rparr>)
             | (calls, Pending, fileName) \<Rightarrow> (calls, Pending))"

section \<open>A browser for the examples\<close>

text \<open>
  Every blob loads as a 2000 by 1000 image; the examples set no size bounds, so the
  output of an encoder has that size too. An encoded blob has 7000 bytes, the document
  9000, and the page is 210 by 297.
\<close>

definition demoBrowser :: browser where
  "demoBrowser =
     \<lparr>loadImage = (\<lambda>b. Some \<lparr>img_width = 2000, img_height = 1000\<rparr>),
      getContext2d = True,
      toBlob = (\<lambda>cv t q. Some \<lparr>blob_size = 7000, blob_type = t, blob_content = 1\<rparr>),
      toDataURL = (\<lambda>cv t q. ''data:'' @ t),
      createObjectURL = (\<lambda>b. ''blob:demo''),
      pdf_getWidth = 210,
      pdf_getHeight = 297,
      pdf_output = (\<lambda>d pl. Inr \<lparr>blob_size = 9000, blob_type = ''application/pdf'',
                                  blob_content = 2\<rparr>)\<rparr>"

definition demoFile :: blob where
  "demoFile = \<lparr>blob_size = 5000, blob_type = ''image/png'', blob_content = 0\<rparr>"

definition demoItem :: imageItem where
  "demoItem = \<lparr>item_id = ''1'', item_name = ''photo.png'', item_file = demoFile\<rparr>"

definition demoSettings :: compressionSettings where
  "demoSettings =
     \<lparr>s_quality = Some (8 / 10), s_maxWidth = None, s_maxHeight = None,
      s_maintainAspectRatio = Some True, s_enableCompression = False\<rparr>"

section \<open>Rounding\<close>

lemma floor_numeral_quotient:
  "\<lfloor>(numeral a :: rat) / numeral b\<rfloor> = numeral a div numeral b"
  using floor_divide_of_int_eq [of "numeral a" "numeral b", where ?'a = rat] by simp

lemma floor_half: "\<lfloor>1 / 2 :: rat\<rfloor> = 0"
  by (rule floor_unique) simp_all

lemmas calc_defs =
  calculate_def calculateDimensions_def truthy_def widthPass_def heightPass_def
  clampTo_def Math_round_def Let_def floor_numeral_quotient

lemma Math_round_le_int: "x \<le> of_int m \<Longrightarrow> Math_round x \<le> of_int m"
  unfolding Math_round_def by (simp add: floor_le_iff)

lemma Math_round_of_int: "Math_round (of_int m) = of_int m"
  unfolding Math_round_def by (simp add: floor_half)

lemma Math_round_of_nat: "Math_round (of_nat m) = of_nat m"
  using Math_round_of_int [of "int m"] by simp

lemma Math_round_is_nat: "0 \<le> x \<Longrightarrow> Math_round x = of_nat (nat \<lfloor>x + 1 / 2\<rfloor>)"
  unfolding Math_round_def by (simp add: le_floor_iff)

lemma Math_round_nat_ge_one:
  fixes x :: rat
  assumes "1 \<le> x"
  shows "1 \<le> nat \<lfloor>x + 1 / 2\<rfloor>"
proof -
  have "(1::int) \<le> \<lfloor>x + 1 / 2\<rfloor>"
    using assms by (simp add: le_floor_iff)
  then show ?thesis by linarith
qed

lemma Math_round_near: "\<bar>Math_round x - x\<bar> \<le> 1 / 2"
  unfolding Math_round_def by linarith

lemma nearest_nat_unique:
  assumes "\<bar>rat_of_nat i - x\<bar> \<le> 1 / 2" and "\<bar>rat_of_nat n - x\<bar> < 1 / 2"
  shows "i = n"
proof -
  have "\<bar>rat_of_nat i - rat_of_nat n\<bar> < 1"
    using assms by linarith
  then have "\<bar>rat_of_int (int i - int n)\<bar> < 1"
    by simp
  then have "\<bar>int i - int n\<bar> < 1"
    by (metis of_int_abs of_int_less_1_iff)
  then show ?thesis by simp
qed

section \<open>The two passes of the aspect-locked branch\<close>

text \<open>The width pass keeps \<open>width = height * aspectRatio\<close> and ends at or below a bound.\<close>

lemma widthPass_ratio:
  assumes "a \<noteq> 0" and "fst wh = snd wh * a"
  shows "fst (widthPass a bw wh) = snd (widthPass a bw wh) * a"
  using assms by (simp add: widthPass_def split: option.splits)

lemma widthPass_le:
  assumes "bw = Some b" and "b \<noteq> 0"
  shows "fst (widthPass a bw wh) \<le> b"
  using assms by (simp add: widthPass_def)

text \<open>The height pass never makes the width larger, and ends at or below its bound.\<close>

lemma heightPass_fst_le:
  assumes "0 < a" and "fst wh = snd wh * a"
  shows "fst (heightPass a bh wh) \<le> fst wh"
  using assms by (simp add: heightPass_def split: option.splits)

lemma heightPass_snd_le:
  assumes "bh = Some b" and "b \<noteq> 0"
  shows "snd (heightPass a bh wh) \<le> b"
  using assms by (simp add: heightPass_def)

lemma clampTo_le:
  assumes "bound = Some b" and "b \<noteq> 0"
  shows "clampTo bound v \<le> b"
  using assms by (simp add: clampTo_def)

lemma clampTo_ge_one:
  assumes "1 \<le> v" and "\<And>b. bound = Some b \<Longrightarrow> b = 0 \<or> 1 \<le> b"
  shows "1 \<le> clampTo bound v"
  using assms by (auto simp add: clampTo_def split: option.splits)

lemma locked_width_le:
  assumes "0 < ow" and "0 < oh" and "bw = Some b" and "b \<noteq> 0"
  shows "fst (heightPass (ow / oh) bh (widthPass (ow / oh) bw (ow, oh))) \<le> b"
proof -
  let ?a = "ow / oh"
  let ?p = "widthPass ?a bw (ow, oh)"
  have a: "0 < ?a" using assms by simp
  have an: "?a \<noteq> 0" using assms by simp
  have "fst (ow, oh) = snd (ow, oh) * ?a"
    using assms by simp
  then have "fst ?p = snd ?p * ?a"
    by (rule widthPass_ratio [OF an])
  then have "fst (heightPass ?a bh ?p) \<le> fst ?p"
    using a by (rule heightPass_fst_le [rotated])
  also have "fst ?p \<le> b"
    using assms(3,4) by (rule widthPass_le)
  finally show ?thesis .
qed

lemma locked_nonneg:
  assumes "0 < ow" and "0 < oh"
    and "\<And>b. bw = Some b \<Longrightarrow> 0 \<le> b" and "\<And>b. bh = Some b \<Longrightarrow> 0 \<le> b"
  shows "0 \<le> fst (heightPass (ow / oh) bh (widthPass (ow / oh) bw (ow, oh)))
       \<and> 0 \<le> snd (heightPass (ow / oh) bh (widthPass (ow / oh) bw (ow, oh)))"
  using assms by (auto simp add: widthPass_def heightPass_def split: option.splits)

lemma locked_one_side:
  assumes "1 \<le> ow" and "1 \<le> oh"
    and "\<And>b. bw = Some b \<Longrightarrow> b = 0 \<or> 1 \<le> b"
    and "\<And>b. bh = Some b \<Longrightarrow> b = 0 \<or> 1 \<le> b"
  shows "1 \<le> fst (heightPass (ow / oh) bh (widthPass (ow / oh) bw (ow, oh)))
       \<or> 1 \<le> snd (heightPass (ow / oh) bh (widthPass (ow / oh) bw (ow, oh)))"
  using assms by (auto simp add: widthPass_def heightPass_def split: option.splits)

lemma locked_result:
  assumes "truthy bw \<or> truthy bh"
  shows "calculateDimensions ow oh bw bh (Some True) =
    (let wh = heightPass (ow / oh) bh (widthPass (ow / oh) bw (ow, oh))
     in \<lparr>width = Math_round (fst wh), height = Math_round (snd wh)\<rparr>)"
  using assms by (auto simp add: calculateDimensions_def Let_def)

section \<open>Properties of calculateDimensions\<close>

text \<open>
  For positive original dimensions the results are natural numbers, one of them at least
  1, and both at least 1 when the aspect lock is off.
\<close>

lemma calculate_naturals:
  assumes "0 < W" and "0 < H"
  shows "\<exists>i j :: nat.
           calculate W H maxW maxH lock = \<lparr>width = of_nat i, height = of_nat j\<rparr>
         \<and> (1 \<le> i \<or> 1 \<le> j) \<and> (\<not> lock \<longrightarrow> 1 \<le> i \<and> 1 \<le> j)"
proof -
  let ?mw = "map_option rat_of_nat maxW" and ?mh = "map_option rat_of_nat maxH"
  have W1: "1 \<le> rat_of_nat W" and H1: "1 \<le> rat_of_nat H" using assms by simp_all
  have bw: "\<And>b. ?mw = Some b \<Longrightarrow> b = 0 \<or> 1 \<le> b" by (cases maxW) auto
  have bh: "\<And>b. ?mh = Some b \<Longrightarrow> b = 0 \<or> 1 \<le> b" by (cases maxH) auto
  have nw: "\<And>b. ?mw = Some b \<Longrightarrow> 0 \<le> b" by (cases maxW) auto
  have nh: "\<And>b. ?mh = Some b \<Longrightarrow> 0 \<le> b" by (cases maxH) auto
  consider (orig) "\<not> truthy ?mw \<and> \<not> truthy ?mh"
    | (locked) "truthy ?mw \<or> truthy ?mh" "lock"
    | (free) "truthy ?mw \<or> truthy ?mh" "\<not> lock"
    by blast
  then show ?thesis
  proof cases
    case orig
    then have "calculate W H maxW maxH lock = \<lparr>width = of_nat W, height = of_nat H\<rparr>"
      by (simp add: calculate_def calculateDimensions_def)
    then show ?thesis using assms by auto
  next
    case locked
    let ?wh = "heightPass (rat_of_nat W / rat_of_nat H) ?mh
                 (widthPass (rat_of_nat W / rat_of_nat H) ?mw (rat_of_nat W, rat_of_nat H))"
    let ?i = "nat \<lfloor>fst ?wh + 1 / 2\<rfloor>" and ?j = "nat \<lfloor>snd ?wh + 1 / 2\<rfloor>"
    have pos: "0 \<le> fst ?wh \<and> 0 \<le> snd ?wh"
      using assms nw nh by (intro locked_nonneg) simp_all
    have one: "1 \<le> fst ?wh \<or> 1 \<le> snd ?wh"
      using W1 H1 bw bh by (intro locked_one_side) simp_all
    have "calculate W H maxW maxH lock =
            \<lparr>width = Math_round (fst ?wh), height = Math_round (snd ?wh)\<rparr>"
      using locked by (auto simp add: calculate_def calculateDimensions_def Let_def)
    then have "calculate W H maxW maxH lock = \<lparr>width = of_nat ?i, height = of_nat ?j\<rparr>"
      using pos by (simp add: Math_round_is_nat)
    moreover have "1 \<le> ?i \<or> 1 \<le> ?j"
      using one Math_round_nat_ge_one by blast
    ultimately show ?thesis using locked(2) by blast
  next
    case free
    let ?w = "clampTo ?mw (rat_of_nat W)" and ?h = "clampTo ?mh (rat_of_nat H)"
    let ?i = "nat \<lfloor>?w + 1 / 2\<rfloor>" and ?j = "nat \<lfloor>?h + 1 / 2\<rfloor>"
    have w: "1 \<le> ?w" using W1 bw by (rule clampTo_ge_one)
    have h: "1 \<le> ?h" using H1 bh by (rule clampTo_ge_one)
    have "calculate W H maxW maxH lock = \<lparr>width = Math_round ?w, height = Math_round ?h\<rparr>"
      using free by (auto simp add: calculate_def calculateDimensions_def)
    then have "calculate W H maxW maxH lock = \<lparr>width = of_nat ?i, height = of_nat ?j\<rparr>"
      using w h by (simp add: Math_round_is_nat)
    moreover have "1 \<le> ?i" and "1 \<le> ?j"
      using w h Math_round_nat_ge_one by blast+
    ultimately show ?thesis by blast
  qed
qed

text \<open>The results are the values before rounding, rounded; without a bound, as they are.\<close>

lemma calculate_before_rounding:
  "calculate W H maxW maxH lock =
     (if \<not> truthy (map_option rat_of_nat maxW) \<and> \<not> truthy (map_option rat_of_nat maxH)
      then \<lparr>width = fst (beforeRounding W H maxW maxH lock),
            height = snd (beforeRounding W H maxW maxH lock)\<rparr>
      else \<lparr>width = Math_round (fst (beforeRounding W H maxW maxH lock)),
            height = Math_round (snd (beforeRounding W H maxW maxH lock))\<rparr>)"
  by (simp add: calculate_def calculateDimensions_def beforeRounding_def Let_def)

lemma calculate_near:
  "\<bar>width (calculate W H maxW maxH lock) - fst (beforeRounding W H maxW maxH lock)\<bar> \<le> 1 / 2
   \<and> \<bar>height (calculate W H maxW maxH lock) - snd (beforeRounding W H maxW maxH lock)\<bar> \<le> 1 / 2"
proof (cases "\<not> truthy (map_option rat_of_nat maxW) \<and> \<not> truthy (map_option rat_of_nat maxH)")
  case True
  then show ?thesis by (simp add: calculate_before_rounding)
next
  case False
  then have "calculate W H maxW maxH lock =
      \<lparr>width = Math_round (fst (beforeRounding W H maxW maxH lock)),
       height = Math_round (snd (beforeRounding W H maxW maxH lock))\<rparr>"
    by (simp only: calculate_before_rounding if_False)
  then show ?thesis
    using Math_round_near [of "fst (beforeRounding W H maxW maxH lock)"]
      Math_round_near [of "snd (beforeRounding W H maxW maxH lock)"]
    by simp
qed

lemma beforeRounding_both:
  assumes "0 < mw" and "0 < mh"
  shows "beforeRounding W H (Some mw) (Some mh) True =
     (let aspect = rat_of_nat W / rat_of_nat H;
          w1 = (if mw < W then rat_of_nat mw else rat_of_nat W);
          h1 = (if mw < W then rat_of_nat mw / aspect else rat_of_nat H)
      in (if rat_of_nat mh < h1 then rat_of_nat mh * aspect else w1,
          if rat_of_nat mh < h1 then rat_of_nat mh else h1))"
  using assms
  by (simp add: beforeRounding_def truthy_def widthPass_def heightPass_def Let_def)

text \<open>
  Where the exact value is halfway, as the width 500.5 of a 1001 by 2000 image bounded by
  1500 and 1000, both neighbours are within \<open>1 / 2\<close> of it.
\<close>

lemma halfway_example:
  "beforeRounding 1001 2000 (Some 1500) (Some 1000) True = (1001 / 2, 1000)
   \<and> \<bar>(500::rat) - 1001 / 2\<bar> \<le> 1 / 2 \<and> \<bar>(501::rat) - 1001 / 2\<bar> \<le> 1 / 2"
  by (simp add: beforeRounding_def truthy_def widthPass_def heightPass_def Let_def)

text \<open>
  Claim C2. With the aspect lock on (and original dimensions up to \<open>2\<^sup>2\<^sup>4\<close>), the
  width bound is applied first and the height bound second, each on the pair the previous step left: the width pass leaves the width
  bound with the height derived from it (or the original pair), and when that height
  exceeds the height bound, the result is the height bound with the width derived from
  it; the width is not derived again afterwards. The returned pair is the pair of
  integers nearest to these values. In particular \<open>calculate(2000,1000,Some 1000,None,true)\<close>
  is 1000 by 500, \<open>calculate(1000,2000,None,Some 1000,true)\<close> is 500 by 1000 and
  \<open>calculate(2000,2000,Some 1000,Some 1500,true)\<close> is 1000 by 1000.
\<close>

theorem calculate_lock_order:
  "calculate 2000 1000 (Some 1000) None True = \<lparr>width = 1000, height = 500\<rparr>
   \<and> calculate 1000 2000 None (Some 1000) True = \<lparr>width = 500, height = 1000\<rparr>
   \<and> calculate 2000 2000 (Some 1000) (Some 1500) True = \<lparr>width = 1000, height = 1000\<rparr>
   \<and> (\<forall>W H mw mh.
         0 < W \<and> W \<le> 16777216 \<and> 0 < H \<and> H \<le> 16777216 \<and> 0 < mw \<and> 0 < mh \<longrightarrow>
         (let aspect = rat_of_nat W / rat_of_nat H;
              w1 = (if mw < W then rat_of_nat mw else rat_of_nat W);
              h1 = (if mw < W then rat_of_nat mw / aspect else rat_of_nat H);
              w2 = (if rat_of_nat mh < h1 then rat_of_nat mh * aspect else w1);
              h2 = (if rat_of_nat mh < h1 then rat_of_nat mh else h1)
          in \<exists>i j :: nat.
               calculate W H (Some mw) (Some mh) True = \<lparr>width = of_nat i, height = of_nat j\<rparr>
             \<and> \<bar>rat_of_nat i - w2\<bar> \<le> 1 / 2 \<and> \<bar>rat_of_nat j - h2\<bar> \<le> 1 / 2))"
proof (intro conjI allI impI)
  show "calculate 2000 1000 (Some 1000) None True = \<lparr>width = 1000, height = 500\<rparr>"
    by (simp add: calc_defs)
  show "calculate 1000 2000 None (Some 1000) True = \<lparr>width = 500, height = 1000\<rparr>"
    by (simp add: calc_defs)
  show "calculate 2000 2000 (Some 1000) (Some 1500) True = \<lparr>width = 1000, height = 1000\<rparr>"
    by (simp add: calc_defs)
next
  fix W H mw mh :: nat
  assume h: "0 < W \<and> W \<le> 16777216 \<and> 0 < H \<and> H \<le> 16777216 \<and> 0 < mw \<and> 0 < mh"
  then obtain i j :: nat where
    c: "calculate W H (Some mw) (Some mh) True = \<lparr>width = of_nat i, height = of_nat j\<rparr>"
    using calculate_naturals [of W H "Some mw" "Some mh" True] by blast
  have n: "\<bar>rat_of_nat i - fst (beforeRounding W H (Some mw) (Some mh) True)\<bar> \<le> 1 / 2"
      "\<bar>rat_of_nat j - snd (beforeRounding W H (Some mw) (Some mh) True)\<bar> \<le> 1 / 2"
    using calculate_near [of W H "Some mw" "Some mh" True] c by simp_all
  have b: "beforeRounding W H (Some mw) (Some mh) True =
     (let aspect = rat_of_nat W / rat_of_nat H;
          w1 = (if mw < W then rat_of_nat mw else rat_of_nat W);
          h1 = (if mw < W then rat_of_nat mw / aspect else rat_of_nat H)
      in (if rat_of_nat mh < h1 then rat_of_nat mh * aspect else w1,
          if rat_of_nat mh < h1 then rat_of_nat mh else h1))"
    using h by (intro beforeRounding_both) simp_all
  show "let aspect = rat_of_nat W / rat_of_nat H;
              w1 = (if mw < W then rat_of_nat mw else rat_of_nat W);
              h1 = (if mw < W then rat_of_nat mw / aspect else rat_of_nat H);
              w2 = (if rat_of_nat mh < h1 then rat_of_nat mh * aspect else w1);
              h2 = (if rat_of_nat mh < h1 then rat_of_nat mh else h1)
          in \<exists>i j :: nat.
               calculate W H (Some mw) (Some mh) True = \<lparr>width = of_nat i, height = of_nat j\<rparr>
             \<and> \<bar>rat_of_nat i - w2\<bar> \<le> 1 / 2 \<and> \<bar>rat_of_nat j - h2\<bar> \<le> 1 / 2"
    unfolding Let_def
    using c n unfolding b Let_def fst_conv snd_conv by blast
qed

text \<open>Both passes fire on a 3000 by 2000 image bounded by 1500 and 600.\<close>

theorem calculate_lock_order_witness:
  "(0::nat) < 3000 \<and> (3000::nat) \<le> 16777216 \<and> (0::nat) < 2000 \<and> (2000::nat) \<le> 16777216
   \<and> (0::nat) < 1500 \<and> (0::nat) < 600
   \<and> calculate 3000 2000 (Some 1500) (Some 600) True = \<lparr>width = 900, height = 600\<rparr>"
proof -
  have h: "(0::nat) < 3000 \<and> (3000::nat) \<le> 16777216 \<and> (0::nat) < 2000
      \<and> (2000::nat) \<le> 16777216 \<and> (0::nat) < 1500 \<and> (0::nat) < 600"
    by simp
  from calculate_lock_order have "\<forall>W H mw mh.
         0 < W \<and> W \<le> 16777216 \<and> 0 < H \<and> H \<le> 16777216 \<and> 0 < mw \<and> 0 < mh \<longrightarrow>
         (let aspect = rat_of_nat W / rat_of_nat H;
              w1 = (if mw < W then rat_of_nat mw else rat_of_nat W);
              h1 = (if mw < W then rat_of_nat mw / aspect else rat_of_nat H);
              w2 = (if rat_of_nat mh < h1 then rat_of_nat mh * aspect else w1);
              h2 = (if rat_of_nat mh < h1 then rat_of_nat mh else h1)
          in \<exists>i j :: nat.
               calculate W H (Some mw) (Some mh) True = \<lparr>width = of_nat i, height = of_nat j\<rparr>
             \<and> \<bar>rat_of_nat i - w2\<bar> \<le> 1 / 2 \<and> \<bar>rat_of_nat j - h2\<bar> \<le> 1 / 2)"
    by blast
  from this [rule_format, OF h] obtain i j :: nat where
    c: "calculate 3000 2000 (Some 1500) (Some 600) True = \<lparr>width = of_nat i, height = of_nat j\<rparr>"
    and "\<bar>rat_of_nat i - 900\<bar> \<le> 1 / 2" and "\<bar>rat_of_nat j - 600\<bar> \<le> 1 / 2"
    by (auto simp add: Let_def)
  then have "i = 900" and "j = 600"
    using nearest_nat_unique [of i 900 900] nearest_nat_unique [of j 600 600] by simp_all
  with c h show ?thesis by simp
qed

text \<open>
  Claim C4, as the specification states it: with a bound present both returned
  dimensions are at least 1. The program rounds and has no minimum: a 1000 by 1 image
  bounded to width 100 gets the height \<open>Math.round(0.1) = 0\<close>.
\<close>

theorem calculate_min_counterexample:
  "height (calculate 1000 1 (Some 100) None True) = 0"
  by (simp add: calc_defs)

text \<open>
  Claim C4, amended. For positive original dimensions up to \<open>2\<^sup>2\<^sup>4\<close> and bounds that
  are natural numbers, the returned dimensions are natural numbers, each within
  \<open>1 / 2\<close> of the exact value of \<^verbatim>\<open>width\<close> or \<^verbatim>\<open>height\<close> before rounding (so each is
  a nearest integer to that value), and at least one of them is at least 1; with the
  aspect lock off both are at least 1. There is no minimum of 1 by 1.
\<close>

theorem calculate_rounded_nonneg:
  assumes "0 < W" and "W \<le> 16777216" and "0 < H" and "H \<le> 16777216"
  shows "\<exists>i j :: nat.
           calculate W H maxW maxH lock = \<lparr>width = of_nat i, height = of_nat j\<rparr>
         \<and> \<bar>rat_of_nat i - fst (beforeRounding W H maxW maxH lock)\<bar> \<le> 1 / 2
         \<and> \<bar>rat_of_nat j - snd (beforeRounding W H maxW maxH lock)\<bar> \<le> 1 / 2
         \<and> (1 \<le> i \<or> 1 \<le> j) \<and> (\<not> lock \<longrightarrow> 1 \<le> i \<and> 1 \<le> j)"
proof -
  obtain i j :: nat where
    c: "calculate W H maxW maxH lock = \<lparr>width = of_nat i, height = of_nat j\<rparr>"
    and o: "1 \<le> i \<or> 1 \<le> j" and u: "\<not> lock \<longrightarrow> 1 \<le> i \<and> 1 \<le> j"
    using calculate_naturals [OF assms(1,3)] by blast
  have "\<bar>rat_of_nat i - fst (beforeRounding W H maxW maxH lock)\<bar> \<le> 1 / 2"
    and "\<bar>rat_of_nat j - snd (beforeRounding W H maxW maxH lock)\<bar> \<le> 1 / 2"
    using calculate_near [of W H maxW maxH lock] c by simp_all
  then show ?thesis using c o u by blast
qed

text \<open>
  A 1000 by 3 image bounded to width 600 with the aspect lock on: the height 1.8 is
  rounded to 2. An 800 by 600 image bounded to width 400 with the aspect lock off.
\<close>

theorem calculate_rounded_nonneg_witness:
  "(0::nat) < 1000 \<and> (1000::nat) \<le> 16777216 \<and> (0::nat) < 3 \<and> (3::nat) \<le> 16777216
   \<and> beforeRounding 1000 3 (Some 600) None True = (600, 9 / 5)
   \<and> calculate 1000 3 (Some 600) None True = \<lparr>width = 600, height = 2\<rparr>
   \<and> (0::nat) < 800 \<and> (800::nat) \<le> 16777216 \<and> (0::nat) < 600 \<and> (600::nat) \<le> 16777216
   \<and> beforeRounding 800 600 (Some 400) None False = (400, 600)
   \<and> calculate 800 600 (Some 400) None False = \<lparr>width = 400, height = 600\<rparr>"
proof -
  have h1: "(0::nat) < 1000" "(1000::nat) \<le> 16777216" "(0::nat) < 3" "(3::nat) \<le> 16777216"
    and h2: "(0::nat) < 800" "(800::nat) \<le> 16777216" "(0::nat) < 600" "(600::nat) \<le> 16777216"
    by simp_all
  have b1: "beforeRounding 1000 3 (Some 600) None True = (600, 9 / 5)"
    by (simp add: beforeRounding_def truthy_def widthPass_def heightPass_def Let_def)
  have b2: "beforeRounding 800 600 (Some 400) None False = (400, 600)"
    by (simp add: beforeRounding_def truthy_def clampTo_def Let_def)
  from calculate_rounded_nonneg [OF h1, of "Some 600" None True] b1 obtain i j :: nat where
    c1: "calculate 1000 3 (Some 600) None True = \<lparr>width = of_nat i, height = of_nat j\<rparr>"
    and "\<bar>rat_of_nat i - 600\<bar> \<le> 1 / 2" and "\<bar>rat_of_nat j - 9 / 5\<bar> \<le> 1 / 2"
    by auto
  then have "i = 600" and "j = 2"
    using nearest_nat_unique [of i 600 600] nearest_nat_unique [of j "9 / 5" 2] by simp_all
  with c1 have r1: "calculate 1000 3 (Some 600) None True = \<lparr>width = 600, height = 2\<rparr>"
    by simp
  from calculate_rounded_nonneg [OF h2, of "Some 400" None False] b2 obtain i j :: nat where
    c2: "calculate 800 600 (Some 400) None False = \<lparr>width = of_nat i, height = of_nat j\<rparr>"
    and "\<bar>rat_of_nat i - 400\<bar> \<le> 1 / 2" and "\<bar>rat_of_nat j - 600\<bar> \<le> 1 / 2"
    by auto
  then have "i = 400" and "j = 600"
    using nearest_nat_unique [of i 400 400] nearest_nat_unique [of j 600 600] by simp_all
  with c2 have r2: "calculate 800 600 (Some 400) None False = \<lparr>width = 400, height = 600\<rparr>"
    by simp
  show ?thesis using h1 h2 b1 b2 r1 r2 by blast
qed

text \<open>
  Claim C10. For positive original dimensions, in both aspect modes, a width bound that
  is supplied (an integer other than 0, which the program takes for no bound) is never
  exceeded by the returned width, and a supplied height bound is never exceeded by the
  returned height; this includes the locked case in which the height pass derives the
  width again, because that pass only ever lowers the width.
\<close>

theorem calculateDimensions_respects_bounds:
  assumes "0 < ow" and "0 < oh"
  shows "(bw = Some (of_int mw) \<and> mw \<noteq> 0 \<longrightarrow>
            width (calculateDimensions ow oh bw bh lock) \<le> of_int mw)
       \<and> (bh = Some (of_int mh) \<and> mh \<noteq> 0 \<longrightarrow>
            height (calculateDimensions ow oh bw bh lock) \<le> of_int mh)"
proof (intro conjI impI)
  assume b: "bw = Some (of_int mw) \<and> mw \<noteq> 0"
  then have t: "truthy bw" by (simp add: truthy_def)
  have nz: "(of_int mw :: rat) \<noteq> 0" using b by simp
  show "width (calculateDimensions ow oh bw bh lock) \<le> of_int mw"
  proof (cases "case lock of None \<Rightarrow> True | Some l \<Rightarrow> l")
    case True
    then show ?thesis
      using t locked_width_le [OF assms conjunct1 [OF b] nz, of bh]
      by (simp add: calculateDimensions_def Let_def Math_round_le_int)
  next
    case False
    then show ?thesis
      using t clampTo_le [OF conjunct1 [OF b] nz, of ow]
      by (simp add: calculateDimensions_def Math_round_le_int)
  qed
next
  assume b: "bh = Some (of_int mh) \<and> mh \<noteq> 0"
  then have t: "truthy bh" by (simp add: truthy_def)
  have nz: "(of_int mh :: rat) \<noteq> 0" using b by simp
  show "height (calculateDimensions ow oh bw bh lock) \<le> of_int mh"
  proof (cases "case lock of None \<Rightarrow> True | Some l \<Rightarrow> l")
    case True
    then show ?thesis
      using t heightPass_snd_le [OF conjunct1 [OF b] nz]
      by (simp add: calculateDimensions_def Let_def Math_round_le_int)
  next
    case False
    then show ?thesis
      using t clampTo_le [OF conjunct1 [OF b] nz, of oh]
      by (simp add: calculateDimensions_def Math_round_le_int)
  qed
qed

text \<open>
  A 1000 by 2000 image bounded by 800 and 1000: the width pass leaves 800 by 1600 and
  the height pass derives the width 500 from the height 1000.
\<close>

theorem calculateDimensions_respects_bounds_witness:
  "(0::rat) < 1000 \<and> (0::rat) < 2000
   \<and> calculateDimensions 1000 2000 (Some 800) (Some 1000) (Some True)
       = \<lparr>width = 500, height = 1000\<rparr>
   \<and> width (calculateDimensions 1000 2000 (Some 800) (Some 1000) (Some True)) \<le> 800
   \<and> height (calculateDimensions 1000 2000 (Some 800) (Some 1000) (Some True)) \<le> 1000"
proof -
  have "(0::rat) < 1000" and "(0::rat) < 2000" by simp_all
  from calculateDimensions_respects_bounds
         [OF this, of "Some 800" 800 "Some 1000" "Some True" 1000]
  show ?thesis by (simp add: calc_defs)
qed

section \<open>The table of supported conversions\<close>

lemma find_None_iff_all: "find P xs = None \<longleftrightarrow> (\<forall>x \<in> set xs. \<not> P x)"
  by (induction xs) auto

lemma lookup_abstract:
  fixes jpg jpeg png pdf :: 'a
  assumes "distinct [jpg, jpeg, png, pdf]"
  defines "nf \<equiv> \<lambda>x. if x = jpeg then jpg else x"
  shows "(\<exists>p \<in> set [(jpg, png), (jpeg, png), (png, jpg), (png, jpeg),
                      (jpg, pdf), (jpeg, pdf), (png, pdf)].
            (fst p = nf f \<or> (nf f = jpg \<and> fst p = jpeg))
          \<and> (snd p = nf t \<or> (nf t = jpg \<and> snd p = jpeg)))
         \<longleftrightarrow> (f, t) \<in> set [(jpg, png), (jpeg, png), (png, jpg), (png, jpeg),
                      (jpg, pdf), (jpeg, pdf), (png, pdf)]"
  using assms(1) unfolding nf_def by auto

lemma pairs_of_table:
  "map (\<lambda>c. (c_from c, c_to c)) supportedConversions =
     [(''jpg'', ''png''), (''jpeg'', ''png''), (''png'', ''jpg''), (''png'', ''jpeg''),
      (''jpg'', ''pdf''), (''jpeg'', ''pdf''), (''png'', ''pdf'')]"
  by (simp add: supportedConversions_def)

lemma matches_pair:
  "matches (normalizeType f) (normalizeType t) c \<longleftrightarrow>
     (fst (c_from c, c_to c) = (if f = ''jpeg'' then ''jpg'' else f)
        \<or> ((if f = ''jpeg'' then ''jpg'' else f) = ''jpg'' \<and> fst (c_from c, c_to c) = ''jpeg''))
   \<and> (snd (c_from c, c_to c) = (if t = ''jpeg'' then ''jpg'' else t)
        \<or> ((if t = ''jpeg'' then ''jpg'' else t) = ''jpg'' \<and> snd (c_from c, c_to c) = ''jpeg''))"
  by (simp only: matches_def normalizeType_def fst_conv snd_conv)

lemma find_matches_table:
  "find (matches (normalizeType f) (normalizeType t)) supportedConversions \<noteq> None
     \<longleftrightarrow> (f, t) \<in> set (map (\<lambda>c. (c_from c, c_to c)) supportedConversions)"
proof -
  have d: "distinct [''jpg'', ''jpeg'', ''png'', ''pdf'']" by simp
  have "find (matches (normalizeType f) (normalizeType t)) supportedConversions \<noteq> None
     \<longleftrightarrow> (\<exists>p \<in> set (map (\<lambda>c. (c_from c, c_to c)) supportedConversions).
            (fst p = (if f = ''jpeg'' then ''jpg'' else f)
               \<or> ((if f = ''jpeg'' then ''jpg'' else f) = ''jpg'' \<and> fst p = ''jpeg''))
          \<and> (snd p = (if t = ''jpeg'' then ''jpg'' else t)
               \<or> ((if t = ''jpeg'' then ''jpg'' else t) = ''jpg'' \<and> snd p = ''jpeg'')))"
    unfolding find_None_iff_all matches_pair by (simp only: set_map ball_simps bex_simps image_iff not_not) 
  also have "\<dots> \<longleftrightarrow> (f, t) \<in> set (map (\<lambda>c. (c_from c, c_to c)) supportedConversions)"
    unfolding pairs_of_table by (rule lookup_abstract [OF d])
  finally show ?thesis .
qed

lemma same_type_abstract:
  fixes jpg jpeg png pdf :: 'a
  assumes "distinct [jpg, jpeg, png, pdf]"
    and "(if f = jpeg then jpg else f) = (if t = jpeg then jpg else t)"
  shows "(f, t) \<notin> set [(jpg, png), (jpeg, png), (png, jpg), (png, jpeg),
                      (jpg, pdf), (jpeg, pdf), (png, pdf)]"
  using assms by (auto split: if_splits)

lemma same_type_not_in_table:
  assumes "normalizeType f = normalizeType t"
  shows "(f, t) \<notin> set (map (\<lambda>c. (c_from c, c_to c)) supportedConversions)"
proof -
  have d: "distinct [''jpg'', ''jpeg'', ''png'', ''pdf'']" by simp
  have e: "(if f = ''jpeg'' then ''jpg'' else f) = (if t = ''jpeg'' then ''jpg'' else t)"
    using assms by (simp only: normalizeType_def)
  show ?thesis
    unfolding pairs_of_table by (rule same_type_abstract [OF d e])
qed

lemma pdf_source_not_in_table:
  "(''pdf'', t) \<notin> set (map (\<lambda>c. (c_from c, c_to c)) supportedConversions)"
  by (simp add: pairs_of_table)

lemma convertImage_not_in_table:
  assumes "(f, t) \<notin> set (map (\<lambda>c. (c_from c, c_to c)) supportedConversions)"
  shows "convertImage env item f t cs = ([], Rejected (ConversionNotSupported f t))"
proof -
  have "find (matches (normalizeType f) (normalizeType t)) supportedConversions = None"
    using assms find_matches_table [of f t] by blast
  then show ?thesis by (simp add: convertImage_def)
qed

text \<open>
  Claim C5. For every pair of source and target type that is absent from the table of
  supported conversions, and so for the source type \<open>pdf\<close> with any target,
  \<open>convertImage\<close> fails with the error of an unsupported conversion (its promise rejects
  with it) and calls no encoder and no document library: it attempts no other conversion.
\<close>

theorem convertImage_unsupported:
  "((fromType, toType) \<notin> set (map (\<lambda>c. (c_from c, c_to c)) supportedConversions) \<longrightarrow>
      convertImage env item fromType toType cs
        = ([], Rejected (ConversionNotSupported fromType toType)))
   \<and> convertImage env item ''pdf'' toType cs
        = ([], Rejected (ConversionNotSupported ''pdf'' toType))"
  using convertImage_not_in_table pdf_source_not_in_table by blast

text \<open>The pair \<open>png\<close> to \<open>gif\<close> is not in the table.\<close>

theorem convertImage_unsupported_witness:
  "(''png'', ''gif'') \<notin> set (map (\<lambda>c. (c_from c, c_to c)) supportedConversions)
   \<and> convertImage demoBrowser demoItem ''png'' ''gif'' demoSettings
        = ([], Rejected (ConversionNotSupported ''png'' ''gif''))"
  using convertImage_unsupported [of "''png''" "''gif''" demoBrowser demoItem demoSettings]
  by (simp add: pairs_of_table)

text \<open>
  Claim C1, as the specification states it: a request from a format to itself with
  compression disabled is rejected with \<^verbatim>\<open>No conversion or compression requested\<close>. For
  \<open>png\<close> to \<open>png\<close> with compression disabled the program rejects with the error of
  an unsupported conversion instead, which is another error.
\<close>

theorem convertImage_same_format_counterexample:
  "convertImage demoBrowser demoItem ''png'' ''png'' demoSettings
     = ([], Rejected (ConversionNotSupported ''png'' ''png''))
   \<and> \<not> s_enableCompression demoSettings
   \<and> ConversionNotSupported ''png'' ''png'' \<noteq> NoConversionOrCompressionRequested"
  by (simp add: convertImage_def supportedConversions_def matches_def normalizeType_def
        demoSettings_def)

text \<open>
  Claim C1, amended. For every image item and every request whose normalized source type
  equals its normalized target type, with compression disabled or enabled,
  \<open>convertImage\<close> rejects the request with the error of an unsupported conversion,
  because the table has no such pair and is consulted first; it makes no call to an
  encoder, so the input is neither passed through nor encoded again.
\<close>

theorem convertImage_same_format:
  assumes "normalizeType fromType = normalizeType toType"
  shows "convertImage env item fromType toType cs
           = ([], Rejected (ConversionNotSupported fromType toType))"
  using assms by (intro convertImage_not_in_table same_type_not_in_table)

text \<open>The request \<open>jpeg\<close> to \<open>jpg\<close>: both normalize to \<open>jpg\<close>.\<close>

theorem convertImage_same_format_witness:
  "normalizeType ''jpeg'' = normalizeType ''jpg''
   \<and> convertImage demoBrowser demoItem ''jpeg'' ''jpg'' demoSettings
        = ([], Rejected (ConversionNotSupported ''jpeg'' ''jpg''))"
  using convertImage_same_format [of "''jpeg''" "''jpg''" demoBrowser demoItem demoSettings]
  by (simp add: normalizeType_def)

section \<open>Statistics of a conversion\<close>

lemma convertImage_success_stats:
  assumes "convertImage env item f t cs = (calls, Resolved r)" and "r_success r"
  shows "r_compressionStats r =
           Some \<lparr>cs_originalSize = blob_size (item_file item),
                 cs_finalSize = blob_size (r_blob r),
                 cs_compressionRatio = ratio (blob_size (item_file item)) (blob_size (r_blob r)),
                 cs_quality = or_default (s_quality cs) 1\<rparr>"
  using assms
  by (auto simp add: convertImage_def Let_def split: option.splits prod.splits promise.splits)

lemma ratio_negative:
  assumes "0 < a" and "a < b"
  shows "ratio a b < 0"
  using assms by (simp add: ratio_def divide_neg_pos)

text \<open>
  Claim C6. For every successful conversion of a file of positive byte size, the result
  has compression statistics whose ratio is
  \<open>(originalSize - finalSize) / originalSize * 100\<close>, with \<open>finalSize\<close> the byte size
  of the returned blob; when the output is larger than the input the ratio is negative,
  and it is reported as it is.
\<close>

theorem convertImage_ratio:
  assumes "convertImage env item fromType toType cs = (calls, Resolved r)"
    and "r_success r"
    and "0 < blob_size (item_file item)"
  shows "\<exists>st. r_compressionStats r = Some st
           \<and> cs_originalSize st = blob_size (item_file item)
           \<and> cs_finalSize st = blob_size (r_blob r)
           \<and> cs_compressionRatio st =
               (of_nat (cs_originalSize st) - of_nat (cs_finalSize st))
                 / of_nat (cs_originalSize st) * 100
           \<and> (cs_originalSize st < cs_finalSize st \<longrightarrow> cs_compressionRatio st < 0)"
  using convertImage_success_stats [OF assms(1,2)] ratio_negative [OF assms(3)]
  by (simp add: ratio_def)

text \<open>A 5000 byte PNG that becomes a 7000 byte JPEG has the ratio \<open>-40\<close>.\<close>

theorem convertImage_ratio_witness:
  "\<exists>calls r st.
      convertImage demoBrowser demoItem ''png'' ''jpg'' demoSettings = (calls, Resolved r)
    \<and> r_success r \<and> 0 < blob_size (item_file demoItem)
    \<and> r_compressionStats r = Some st
    \<and> cs_originalSize st = 5000 \<and> cs_finalSize st = 7000
    \<and> cs_compressionRatio st = - 40 \<and> cs_compressionRatio st < 0"
proof -
  obtain calls r where c: "convertImage demoBrowser demoItem ''png'' ''jpg'' demoSettings
      = (calls, Resolved r)" and s: "r_success r"
    and b: "blob_size (r_blob r) = 7000"
    by (simp add: convertImage_def dispatch_def convertImageFormat_def supportedConversions_def
          matches_def normalizeType_def demoBrowser_def demoItem_def demoFile_def
          demoSettings_def Let_def calculateDimensions_def truthy_def)
  have p: "0 < blob_size (item_file demoItem)"
    by (simp add: demoItem_def demoFile_def)
  from convertImage_ratio [OF c s p] obtain st where
    "r_compressionStats r = Some st" "cs_originalSize st = blob_size (item_file demoItem)"
    "cs_finalSize st = blob_size (r_blob r)"
    "cs_compressionRatio st =
       (of_nat (cs_originalSize st) - of_nat (cs_finalSize st)) / of_nat (cs_originalSize st) * 100"
    "cs_originalSize st < cs_finalSize st \<longrightarrow> cs_compressionRatio st < 0"
    by blast
  then show ?thesis using c s p b
    by (intro exI [of _ calls] exI [of _ r] exI [of _ st]) (simp add: demoItem_def demoFile_def)
qed

section \<open>What the operations can fail with, and what the encoders receive\<close>

lemma delegate_errors:
  "snd (compressImage env fl cs) \<noteq> Rejected NoConversionOrCompressionRequested"
  "snd (convertImageFormat env fl f t cs) \<noteq> Rejected NoConversionOrCompressionRequested"
  by (auto simp add: compressImage_def convertImageFormat_def Let_def split: option.splits)

lemma assemblePDF_errors:
  "snd (assemblePDF env fl cs calls src img st) \<noteq> Rejected NoConversionOrCompressionRequested"
  by (auto simp add: assemblePDF_def Let_def split: sum.splits)

lemma convertImageToPDF_errors:
  "snd (convertImageToPDF env fl cs) \<noteq> Rejected NoConversionOrCompressionRequested"
  using delegate_errors(1) [of env fl cs] assemblePDF_errors [of env fl cs]
  by (auto simp add: convertImageToPDF_def split: option.splits prod.splits promise.splits)

text \<open>The branch \<^verbatim>\<open>No conversion or compression requested\<close> is never taken.\<close>

lemma convertImage_never_no_operation:
  "snd (convertImage env item f t cs) \<noteq> Rejected NoConversionOrCompressionRequested
   \<and> (\<forall>r. snd (convertImage env item f t cs) = Resolved r
          \<longrightarrow> r_error r \<noteq> Some NoConversionOrCompressionRequested)"
proof (cases "find (matches (normalizeType f) (normalizeType t)) supportedConversions")
  case None
  then show ?thesis by (simp add: convertImage_def)
next
  case (Some c)
  then have "(f, t) \<in> set (map (\<lambda>c. (c_from c, c_to c)) supportedConversions)"
    using find_matches_table [of f t] by simp
  then have n: "normalizeType f \<noteq> normalizeType t"
    using same_type_not_in_table by blast
  show ?thesis
    using Some n convertImageToPDF_errors [of env "item_file item" cs]
      delegate_errors(2) [of env "item_file item" f t cs]
    by (auto simp add: convertImage_def dispatch_def Let_def
          split: prod.splits promise.splits)
qed

lemma compressImage_calls_kind:
  "c \<in> set (fst (compressImage env fl cs)) \<Longrightarrow> \<exists>cv t. c = ToBlob cv t (s_quality cs)"
  by (auto simp add: compressImage_def Let_def split: option.splits if_splits)

lemma convertImageFormat_calls_kind:
  "c \<in> set (fst (convertImageFormat env fl f t cs)) \<Longrightarrow>
     \<exists>cv ty. c = ToBlob cv ty
       (if s_enableCompression cs then s_quality cs
        else if t = ''png'' then None else Some (95 / 100))"
  by (auto simp add: convertImageFormat_def Let_def split: option.splits if_splits)

lemma or_default_cases:
  "or_default q d = (case q of None \<Rightarrow> d | Some v \<Rightarrow> if v = 0 then d else v)"
  by (simp add: or_default_def split: option.splits)

lemma assemblePDF_calls:
  "set (fst (assemblePDF env fl cs calls src img st)) =
     set calls \<union> {ToDataURL \<lparr>cv_width = img_width img, cv_height = img_height img,
                     cv_white = False, cv_source = src, cv_drawSize = None\<rparr>
                   ''image/jpeg'' (Some (or_default (s_quality cs) (95 / 100))),
                  AddImage (toDataURL env \<lparr>cv_width = img_width img, cv_height = img_height img,
                     cv_white = False, cv_source = src, cv_drawSize = None\<rparr>
                   ''image/jpeg'' (Some (or_default (s_quality cs) (95 / 100)))) ''JPEG''
                    (pdfPlacement (pdf_getWidth env) (pdf_getHeight env)
                       (img_width img) (img_height img))}"
  by (auto simp add: assemblePDF_def Let_def split: sum.splits)

lemma convertImageToPDF_calls_kind:
  assumes "c \<in> set (fst (convertImageToPDF env fl cs))"
  shows "(\<exists>cv t. c = ToBlob cv t (s_quality cs))
       \<or> (\<exists>cv. c = ToDataURL cv ''image/jpeg''
             (Some (case s_quality cs of None \<Rightarrow> 95 / 100
                    | Some v \<Rightarrow> if v = 0 then 95 / 100 else v)))
       \<or> (\<exists>d p. c = AddImage d ''JPEG'' p)"
proof -
  have "\<And>calls p. compressImage env fl cs = (calls, p) \<Longrightarrow> c \<in> set calls
            \<Longrightarrow> \<exists>cv t. c = ToBlob cv t (s_quality cs)"
    using compressImage_calls_kind [of c env fl cs] by simp
  then show ?thesis
    using assms
    by (auto simp add: convertImageToPDF_def assemblePDF_calls or_default_cases
          split: option.splits prod.splits promise.splits if_splits)
qed

lemma convertImageToPDF_page_call:
  assumes "convertImageToPDF env fl cs = (calls, Resolved res)"
  shows "\<exists>cv. ToDataURL cv ''image/jpeg''
             (Some (case s_quality cs of None \<Rightarrow> 95 / 100
                    | Some v \<Rightarrow> if v = 0 then 95 / 100 else v)) \<in> set calls"
proof -
  have "\<And>c p a b c' d e. assemblePDF env fl cs a b c' d = (calls, p) \<Longrightarrow>
      \<exists>cv. ToDataURL cv ''image/jpeg'' (Some (or_default (s_quality cs) (95 / 100))) \<in> set calls"
    using assemblePDF_calls by (metis fst_conv insertI1 UnI2)
  then show ?thesis
    using assms unfolding or_default_cases
    by (auto simp add: convertImageToPDF_def
          split: option.splits prod.splits promise.splits if_splits)
qed

text \<open>
  Claim C3, amended. The quality is passed on as it is, with no clamping. Every call of
  \<open>compressImage\<close> is a \<^verbatim>\<open>toBlob\<close> with \<^verbatim>\<open>settings.quality\<close>. Every call of
  \<open>convertImageFormat\<close> is a \<^verbatim>\<open>toBlob\<close> with \<^verbatim>\<open>compressionSettings.quality\<close> when
  compression is enabled, and otherwise with 0.95 for a JPEG and no quality for a PNG.
  In \<open>convertImageToPDF\<close> a \<^verbatim>\<open>toBlob\<close> call has \<^verbatim>\<open>compressionSettings.quality\<close> and
  a \<^verbatim>\<open>toDataURL\<close> call, which encodes the page image, has
  \<^verbatim>\<open>compressionSettings?.quality || 0.95\<close>: the quality if there is one and it is not
  0, else 0.95; a run that resolves has made such a call.
\<close>

theorem encoder_quality_unclamped:
  "(\<forall>c \<in> set (fst (compressImage env fl cs)). \<exists>cv t. c = ToBlob cv t (s_quality cs))
   \<and> (\<forall>c \<in> set (fst (convertImageFormat env fl fromType toType cs)).
         \<exists>cv t. c = ToBlob cv t
           (if s_enableCompression cs then s_quality cs
            else if toType = ''png'' then None else Some (95 / 100)))
   \<and> (\<forall>c \<in> set (fst (convertImageToPDF env fl cs)).
         (\<exists>cv t. c = ToBlob cv t (s_quality cs))
       \<or> (\<exists>cv. c = ToDataURL cv ''image/jpeg''
             (Some (case s_quality cs of None \<Rightarrow> 95 / 100
                    | Some v \<Rightarrow> if v = 0 then 95 / 100 else v)))
       \<or> (\<exists>d p. c = AddImage d ''JPEG'' p))
   \<and> (convertImageToPDF env fl cs = (calls, Resolved res) \<longrightarrow>
         (\<exists>cv. ToDataURL cv ''image/jpeg''
             (Some (case s_quality cs of None \<Rightarrow> 95 / 100
                    | Some v \<Rightarrow> if v = 0 then 95 / 100 else v)) \<in> set calls))"
  using compressImage_calls_kind convertImageFormat_calls_kind convertImageToPDF_calls_kind
    convertImageToPDF_page_call
  by blast

lemmas demo_defs =
  demoBrowser_def demoFile_def demoItem_def demoSettings_def
  compressImage_def convertImageFormat_def convertImageToPDF_def assemblePDF_def
  generateThumbnail_def thumbnailSize_def pdfPlacement_def dispatch_def
  calculateDimensions_def truthy_def or_default_def ratio_def Let_def

text \<open>
  Claim C3, as the specification states it: a quality outside \<open>[0.1, 1.0]\<close> reaches
  the encoder clamped, 1.5 as 1.0 and 0.0 as 0.1. In a conversion from PNG to JPEG with
  compression enabled, the encoder receives 1.5 for the quality 1.5 and 0 for the
  quality 0.
\<close>

theorem encoder_quality_counterexample:
  "map call_quality
     (fst (convertImageFormat demoBrowser demoFile ''png'' ''jpg''
        (demoSettings\<lparr>s_quality := Some (15 / 10), s_enableCompression := True\<rparr>)))
     = [Some (15 / 10)]
   \<and> map call_quality
     (fst (convertImageFormat demoBrowser demoFile ''png'' ''jpg''
        (demoSettings\<lparr>s_quality := Some 0, s_enableCompression := True\<rparr>)))
     = [Some 0]"
  by (simp add: demo_defs)

text \<open>
  With compression enabled, the quality 1.5 reaches every encoder as 1.5, and the
  quality 0 reaches \<^verbatim>\<open>toBlob\<close> as 0 and the encoder of the page image as 0.95.
\<close>

theorem encoder_quality_unclamped_witness:
  "fst (compressImage demoBrowser demoFile
          (demoSettings\<lparr>s_quality := Some (15 / 10), s_enableCompression := True\<rparr>))
     = [ToBlob \<lparr>cv_width = 2000, cv_height = 1000, cv_white = False, cv_source = demoFile,
                cv_drawSize = Some (2000, 1000)\<rparr> ''image/png'' (Some (15 / 10))]
   \<and> map call_quality
     (fst (convertImageFormat demoBrowser demoFile ''png'' ''jpg''
        (demoSettings\<lparr>s_quality := Some 0, s_enableCompression := True\<rparr>)))
     = [Some 0]
   \<and> map call_quality
     (fst (convertImageToPDF demoBrowser demoFile
        (demoSettings\<lparr>s_quality := Some (15 / 10), s_enableCompression := True\<rparr>)))
     = [Some (15 / 10), Some (15 / 10), None]
   \<and> map call_quality
     (fst (convertImageToPDF demoBrowser demoFile
        (demoSettings\<lparr>s_quality := Some 0, s_enableCompression := True\<rparr>)))
     = [Some 0, Some (95 / 100), None]"
proof -
  let ?hi = "demoSettings\<lparr>s_quality := Some (15 / 10), s_enableCompression := True\<rparr>"
  let ?lo = "demoSettings\<lparr>s_quality := Some 0, s_enableCompression := True\<rparr>"
  have q: "s_quality ?hi = Some (15 / 10)" "s_quality ?lo = Some 0"
    "s_enableCompression ?hi" "s_enableCompression ?lo"
    by simp_all
  note hi = encoder_quality_unclamped [of demoBrowser demoFile ?hi "''png''" "''jpg''"]
  note lo = encoder_quality_unclamped [of demoBrowser demoFile ?lo "''png''" "''jpg''"]
  obtain q1 where e1: "fst (compressImage demoBrowser demoFile ?hi)
     = [ToBlob \<lparr>cv_width = 2000, cv_height = 1000, cv_white = False, cv_source = demoFile,
                cv_drawSize = Some (2000, 1000)\<rparr> ''image/png'' q1]"
    by (simp add: demo_defs)
  have r1: "q1 = Some (15 / 10)"
    using hi e1 q by simp
  obtain cv2 t2 q2 where
    e2: "fst (convertImageFormat demoBrowser demoFile ''png'' ''jpg'' ?lo) = [ToBlob cv2 t2 q2]"
    by (simp add: demo_defs)
  have r2: "q2 = Some 0"
    using lo e2 q by simp
  obtain cv3 t3 q3 cv4 t4 q4 d4 f4 p4 where
    e3: "fst (convertImageToPDF demoBrowser demoFile ?hi)
           = [ToBlob cv3 t3 q3, ToDataURL cv4 t4 q4, AddImage d4 f4 p4]"
    by (simp add: demo_defs)
  have r3: "q3 = Some (15 / 10)" "q4 = Some (15 / 10)"
    using hi e3 q by simp_all
  obtain cv5 t5 q5 cv6 t6 q6 d6 f6 p6 where
    e4: "fst (convertImageToPDF demoBrowser demoFile ?lo)
           = [ToBlob cv5 t5 q5, ToDataURL cv6 t6 q6, AddImage d6 f6 p6]"
    by (simp add: demo_defs)
  have r4: "q5 = Some 0" "q6 = Some (95 / 100)"
    using lo e4 q by simp_all
  show ?thesis
    using e1 r1 e2 r2 e3 r3 e4 r4 by simp
qed

lemma pdfPlacement_wide:
  assumes "iw / ih > pw / ph"
  shows "pdfPlacement pw ph iw ih =
           \<lparr>p_x = (pw - (pw - 20)) / 2, p_y = (ph - (pw - 20) / (iw / ih)) / 2,
            finalWidth = pw - 20, finalHeight = (pw - 20) / (iw / ih)\<rparr>"
  using assms by (simp add: pdfPlacement_def Let_def)

lemma pdfPlacement_tall:
  assumes "\<not> iw / ih > pw / ph"
  shows "pdfPlacement pw ph iw ih =
           \<lparr>p_x = (pw - (ph - 20) * (iw / ih)) / 2, p_y = (ph - (ph - 20)) / 2,
            finalWidth = (ph - 20) * (iw / ih), finalHeight = ph - 20\<rparr>"
  using assms by (simp add: pdfPlacement_def Let_def)

lemma wide_raster_portrait_page:
  fixes iw ih pw ph :: rat
  assumes "0 < ih" and "ih < iw" and "0 < pw" and "pw \<le> ph"
  shows "pw / ph < iw / ih"
proof -
  have "pw / ph \<le> 1" using assms by simp
  moreover have "1 < iw / ih" using assms by simp
  ultimately show ?thesis by simp
qed

lemma convertImageToPDF_last_call:
  assumes "convertImageToPDF env fl cs = (calls, Resolved res)"
  shows "\<exists>src raster.
           (if s_enableCompression cs
            then (\<exists>st. snd (compressImage env fl cs) = Resolved (src, st))
            else src = fl)
         \<and> loadImage env src = Some raster
         \<and> last calls =
             AddImage (toDataURL env \<lparr>cv_width = img_width raster, cv_height = img_height raster,
                         cv_white = False, cv_source = src, cv_drawSize = None\<rparr>
                       ''image/jpeg'' (Some (or_default (s_quality cs) (95 / 100)))) ''JPEG''
               (pdfPlacement (pdf_getWidth env) (pdf_getHeight env)
                  (img_width raster) (img_height raster))"
  using assms
  by (auto simp add: convertImageToPDF_def assemblePDF_def Let_def
        split: option.splits prod.splits promise.splits if_splits sum.splits)

section \<open>Placement on the page and document statistics\<close>

text \<open>
  Claim C7. For a raster placed on the page: if its aspect ratio exceeds that of the
  page then \<open>finalWidth = pageWidth - 20\<close> and \<open>finalHeight = finalWidth / imgAspect\<close>,
  otherwise \<open>finalHeight = pageHeight - 20\<close> and \<open>finalWidth = finalHeight * imgAspect\<close>;
  the placement is centred at \<open>x = (pageWidth - finalWidth) / 2\<close> and
  \<open>y = (pageHeight - finalHeight) / 2\<close>. So a raster that is wider than tall, on a page
  that is not wider than tall (the page of \<^verbatim>\<open>new jsPDF()\<close> is upright), has a left and a
  right margin of exactly 10. This is the placement of every raster that
  \<open>convertImageToPDF\<close> puts on the page: the last call of a resolved run is
  \<^verbatim>\<open>addImage\<close> with the placement of the image it loaded, the compressed one when
  compression is enabled and the original one otherwise.
\<close>

theorem pdf_placement:
  assumes "0 < ih" and "0 < ph"
  shows "(iw / ih > pw / ph \<longrightarrow>
      finalWidth (pdfPlacement pw ph iw ih) = pw - 20
    \<and> finalHeight (pdfPlacement pw ph iw ih) = finalWidth (pdfPlacement pw ph iw ih) / (iw / ih))
   \<and> (\<not> iw / ih > pw / ph \<longrightarrow>
      finalHeight (pdfPlacement pw ph iw ih) = ph - 20
    \<and> finalWidth (pdfPlacement pw ph iw ih) = finalHeight (pdfPlacement pw ph iw ih) * (iw / ih))
   \<and> p_x (pdfPlacement pw ph iw ih) = (pw - finalWidth (pdfPlacement pw ph iw ih)) / 2
   \<and> p_y (pdfPlacement pw ph iw ih) = (ph - finalHeight (pdfPlacement pw ph iw ih)) / 2
   \<and> (ih < iw \<and> 0 < pw \<and> pw \<le> ph \<longrightarrow>
        p_x (pdfPlacement pw ph iw ih) = 10
      \<and> pw - (p_x (pdfPlacement pw ph iw ih) + finalWidth (pdfPlacement pw ph iw ih)) = 10)
   \<and> (convertImageToPDF env fl cs = (calls, Resolved res) \<longrightarrow>
        (\<exists>src raster dat.
            (if s_enableCompression cs
             then (\<exists>st. snd (compressImage env fl cs) = Resolved (src, st))
             else src = fl)
          \<and> loadImage env src = Some raster
          \<and> last calls =
              AddImage dat ''JPEG''
                (pdfPlacement (pdf_getWidth env) (pdf_getHeight env)
                   (img_width raster) (img_height raster))))"
proof (intro conjI impI)
  assume w: "iw / ih > pw / ph"
  show "finalWidth (pdfPlacement pw ph iw ih) = pw - 20"
    by (simp add: pdfPlacement_wide [OF w])
  show "finalHeight (pdfPlacement pw ph iw ih) = finalWidth (pdfPlacement pw ph iw ih) / (iw / ih)"
    by (simp add: pdfPlacement_wide [OF w])
next
  assume t: "\<not> iw / ih > pw / ph"
  show "finalHeight (pdfPlacement pw ph iw ih) = ph - 20"
    by (simp add: pdfPlacement_tall [OF t])
  show "finalWidth (pdfPlacement pw ph iw ih) = finalHeight (pdfPlacement pw ph iw ih) * (iw / ih)"
    by (simp add: pdfPlacement_tall [OF t])
next
  show "p_x (pdfPlacement pw ph iw ih) = (pw - finalWidth (pdfPlacement pw ph iw ih)) / 2"
    by (simp add: pdfPlacement_def Let_def)
  show "p_y (pdfPlacement pw ph iw ih) = (ph - finalHeight (pdfPlacement pw ph iw ih)) / 2"
    by (simp add: pdfPlacement_def Let_def)
next
  assume "ih < iw \<and> 0 < pw \<and> pw \<le> ph"
  then have w: "iw / ih > pw / ph"
    using assms(1) wide_raster_portrait_page [of ih iw pw ph] by simp
  show "p_x (pdfPlacement pw ph iw ih) = 10"
    by (simp add: pdfPlacement_wide [OF w])
  show "pw - (p_x (pdfPlacement pw ph iw ih) + finalWidth (pdfPlacement pw ph iw ih)) = 10"
    by (simp add: pdfPlacement_wide [OF w])
next
  assume "convertImageToPDF env fl cs = (calls, Resolved res)"
  from convertImageToPDF_last_call [OF this]
  show "\<exists>src raster dat.
            (if s_enableCompression cs
             then (\<exists>st. snd (compressImage env fl cs) = Resolved (src, st))
             else src = fl)
          \<and> loadImage env src = Some raster
          \<and> last calls =
              AddImage dat ''JPEG''
                (pdfPlacement (pdf_getWidth env) (pdf_getHeight env)
                   (img_width raster) (img_height raster))"
    by blast
qed

text \<open>A 2000 by 1000 raster and a 1000 by 2000 raster on a page of 210 by 297.\<close>

theorem pdf_placement_witness:
  "(0::rat) < 1000 \<and> (0::rat) < 297 \<and> (1000::rat) < 2000 \<and> (0::rat) < 210
   \<and> (210::rat) \<le> 297 \<and> (2000::rat) / 1000 > 210 / 297
   \<and> pdfPlacement 210 297 2000 1000 = \<lparr>p_x = 10, p_y = 101, finalWidth = 190, finalHeight = 95\<rparr>
   \<and> 210 - (p_x (pdfPlacement 210 297 2000 1000) + finalWidth (pdfPlacement 210 297 2000 1000)) = 10
   \<and> (0::rat) < 2000 \<and> \<not> (1000::rat) / 2000 > 210 / 297
   \<and> finalHeight (pdfPlacement 210 297 1000 2000) = 277
   \<and> finalWidth (pdfPlacement 210 297 1000 2000) = 277 / 2
   \<and> last (fst (convertImageToPDF demoBrowser demoFile demoSettings))
       = AddImage ''data:image/jpeg'' ''JPEG''
           \<lparr>p_x = 10, p_y = 101, finalWidth = 190, finalHeight = 95\<rparr>"
proof -
  have h: "(1000::rat) < 2000 \<and> (0::rat) < 210 \<and> (210::rat) \<le> 297"
    by simp
  have a: "(2000::rat) / 1000 > 210 / 297" and b: "\<not> (1000::rat) / 2000 > 210 / 297"
    by simp_all
  have p1: "(0::rat) < 1000" and p2: "(0::rat) < 297" and p3: "(0::rat) < 2000"
    by simp_all
  have e: "pdfPlacement 210 297 2000 1000
             = \<lparr>p_x = 10, p_y = 101, finalWidth = 190, finalHeight = 95\<rparr>"
    by (simp add: pdfPlacement_def Let_def)
  have l: "last (fst (convertImageToPDF demoBrowser demoFile demoSettings))
       = AddImage ''data:image/jpeg'' ''JPEG''
           \<lparr>p_x = 10, p_y = 101, finalWidth = 190, finalHeight = 95\<rparr>"
    by (simp add: demo_defs)
  from pdf_placement [OF p1 p2, where pw = 210 and iw = 2000] h
  have m: "210 - (p_x (pdfPlacement 210 297 2000 1000)
                 + finalWidth (pdfPlacement 210 297 2000 1000)) = 10"
    by blast
  from pdf_placement [OF p3 p2, where pw = 210 and iw = 1000] b
  have "finalHeight (pdfPlacement 210 297 1000 2000) = 297 - 20
      \<and> finalWidth (pdfPlacement 210 297 1000 2000)
          = finalHeight (pdfPlacement 210 297 1000 2000) * (1000 / 2000)"
    by blast
  then have t: "finalHeight (pdfPlacement 210 297 1000 2000) = 277
      \<and> finalWidth (pdfPlacement 210 297 1000 2000) = 277 / 2"
    by simp
  show ?thesis using h a b p1 p2 p3 e m t l by blast
qed

lemma convertImageToPDF_compressed_stats:
  assumes "s_enableCompression cs"
    and "convertImageToPDF env fl cs = (calls, Resolved (b, st))"
  shows "\<exists>compressed. snd (compressImage env fl cs) = Resolved (compressed, st)"
  using assms
  by (auto simp add: convertImageToPDF_def assemblePDF_def Let_def
        split: option.splits prod.splits promise.splits if_splits sum.splits)

lemma convertImageToPDF_plain_stats:
  assumes "\<not> s_enableCompression cs"
    and "convertImageToPDF env fl cs = (calls, Resolved (b, st))"
  shows "st = \<lparr>st_originalSize = blob_size fl, st_compressedSize = blob_size b,
               st_compressionRatio = None,
               st_quality = Some (or_default (s_quality cs) (95 / 100)),
               st_originalDimensions = None, st_newDimensions = None\<rparr>"
  using assms
  by (auto simp add: convertImageToPDF_def assemblePDF_def Let_def
        split: option.splits if_splits sum.splits)

text \<open>
  Claim C8, as the specification states it: with compression disabled the statistics of
  \<open>convertImageToPDF\<close> carry a compression ratio computed by the formula. The record
  the program builds there has no compression ratio at all.
\<close>

theorem convertImageToPDF_stats_counterexample:
  "\<not> s_enableCompression demoSettings
   \<and> snd (convertImageToPDF demoBrowser demoFile demoSettings) =
       Resolved (\<lparr>blob_size = 9000, blob_type = ''application/pdf'', blob_content = 2\<rparr>,
                 \<lparr>st_originalSize = 5000, st_compressedSize = 9000,
                  st_compressionRatio = None, st_quality = Some (8 / 10),
                  st_originalDimensions = None, st_newDimensions = None\<rparr>)"
  by (simp add: demo_defs)

text \<open>
  Claim C8, amended. When \<open>convertImageToPDF\<close> runs with compression enabled, the
  statistics it returns are those of its \<open>compressImage\<close> step; with compression
  disabled they are a record of the original byte size, the byte size of the document and
  the quality used (the quality of the settings if it is not 0, else 0.95), without a
  compression ratio. The ratio \<open>(originalSize - finalSize) / originalSize * 100\<close> is
  computed by \<open>convertImage\<close>, for the result it builds from the document.
\<close>

theorem convertImageToPDF_stats:
  "(s_enableCompression cs \<and> convertImageToPDF env fl cs = (calls, Resolved (b, st)) \<longrightarrow>
      (\<exists>compressed. snd (compressImage env fl cs) = Resolved (compressed, st)))
   \<and> (\<not> s_enableCompression cs \<and> convertImageToPDF env fl cs = (calls, Resolved (b, st)) \<longrightarrow>
      st = \<lparr>st_originalSize = blob_size fl, st_compressedSize = blob_size b,
            st_compressionRatio = None,
            st_quality = Some (or_default (s_quality cs) (95 / 100)),
            st_originalDimensions = None, st_newDimensions = None\<rparr>)
   \<and> (convertImage env item fromType ''pdf'' cs = (calls', Resolved r) \<and> r_success r
        \<and> 0 < blob_size (item_file item) \<longrightarrow>
      r_compressionStats r =
        Some \<lparr>cs_originalSize = blob_size (item_file item),
              cs_finalSize = blob_size (r_blob r),
              cs_compressionRatio =
                (of_nat (blob_size (item_file item)) - of_nat (blob_size (r_blob r)))
                  / of_nat (blob_size (item_file item)) * 100,
              cs_quality = or_default (s_quality cs) 1\<rparr>)"
  using convertImageToPDF_compressed_stats convertImageToPDF_plain_stats
    convertImage_success_stats [of env item fromType "''pdf''" cs calls' r]
  by (simp add: ratio_def) blast

text \<open>
  The example file with compression disabled, with compression enabled, and as the
  conversion of the example item to a document.
\<close>

theorem convertImageToPDF_stats_witness:
  "(\<exists>calls b st.
      \<not> s_enableCompression demoSettings
    \<and> convertImageToPDF demoBrowser demoFile demoSettings = (calls, Resolved (b, st))
    \<and> st = \<lparr>st_originalSize = 5000, st_compressedSize = 9000,
            st_compressionRatio = None, st_quality = Some (8 / 10),
            st_originalDimensions = None, st_newDimensions = None\<rparr>)
   \<and> (\<exists>calls b st compressed.
      s_enableCompression (demoSettings\<lparr>s_enableCompression := True\<rparr>)
    \<and> convertImageToPDF demoBrowser demoFile (demoSettings\<lparr>s_enableCompression := True\<rparr>)
        = (calls, Resolved (b, st))
    \<and> snd (compressImage demoBrowser demoFile (demoSettings\<lparr>s_enableCompression := True\<rparr>))
        = Resolved (compressed, st))
   \<and> (\<exists>calls r.
      convertImage demoBrowser demoItem ''png'' ''pdf'' demoSettings = (calls, Resolved r)
    \<and> r_success r \<and> 0 < blob_size (item_file demoItem)
    \<and> r_compressionStats r =
        Some \<lparr>cs_originalSize = 5000, cs_finalSize = 9000,
              cs_compressionRatio = - 80, cs_quality = 8 / 10\<rparr>)"
proof (intro conjI)
  obtain calls b st where
    e: "convertImageToPDF demoBrowser demoFile demoSettings = (calls, Resolved (b, st))"
    and s: "blob_size b = 9000"
    by (simp add: demo_defs)
  have n: "\<not> s_enableCompression demoSettings" by (simp add: demoSettings_def)
  from convertImageToPDF_stats [of demoSettings demoBrowser demoFile calls b st] n e
  have "st = \<lparr>st_originalSize = blob_size demoFile, st_compressedSize = blob_size b,
            st_compressionRatio = None,
            st_quality = Some (or_default (s_quality demoSettings) (95 / 100)),
            st_originalDimensions = None, st_newDimensions = None\<rparr>"
    by blast
  then have "st = \<lparr>st_originalSize = 5000, st_compressedSize = 9000,
            st_compressionRatio = None, st_quality = Some (8 / 10),
            st_originalDimensions = None, st_newDimensions = None\<rparr>"
    using s by (simp add: demoFile_def demoSettings_def or_default_def)
  then show "\<exists>calls b st.
      \<not> s_enableCompression demoSettings
    \<and> convertImageToPDF demoBrowser demoFile demoSettings = (calls, Resolved (b, st))
    \<and> st = \<lparr>st_originalSize = 5000, st_compressedSize = 9000,
            st_compressionRatio = None, st_quality = Some (8 / 10),
            st_originalDimensions = None, st_newDimensions = None\<rparr>"
    using n e by blast
next
  let ?s = "demoSettings\<lparr>s_enableCompression := True\<rparr>"
  obtain calls b st where
    e: "convertImageToPDF demoBrowser demoFile ?s = (calls, Resolved (b, st))"
    by (simp add: demo_defs)
  have y: "s_enableCompression ?s" by simp
  from convertImageToPDF_stats [of ?s demoBrowser demoFile calls b st] y e
  obtain compressed where
    "snd (compressImage demoBrowser demoFile ?s) = Resolved (compressed, st)"
    by blast
  then show "\<exists>calls b st compressed.
      s_enableCompression ?s
    \<and> convertImageToPDF demoBrowser demoFile ?s = (calls, Resolved (b, st))
    \<and> snd (compressImage demoBrowser demoFile ?s) = Resolved (compressed, st)"
    using y e by blast
next
  obtain calls r where
    c: "convertImage demoBrowser demoItem ''png'' ''pdf'' demoSettings = (calls, Resolved r)"
    and s: "r_success r" and b: "blob_size (r_blob r) = 9000"
    by (simp add: convertImage_def supportedConversions_def matches_def normalizeType_def
          demo_defs)
  have p: "0 < blob_size (item_file demoItem)"
    by (simp add: demoItem_def demoFile_def)
  from convertImageToPDF_stats
         [of demoSettings demoBrowser demoFile _ _ _ demoItem "''png''" calls r] c s p
  have "r_compressionStats r =
        Some \<lparr>cs_originalSize = blob_size (item_file demoItem),
              cs_finalSize = blob_size (r_blob r),
              cs_compressionRatio =
                (of_nat (blob_size (item_file demoItem)) - of_nat (blob_size (r_blob r)))
                  / of_nat (blob_size (item_file demoItem)) * 100,
              cs_quality = or_default (s_quality demoSettings) 1\<rparr>"
    by blast
  then have "r_compressionStats r =
        Some \<lparr>cs_originalSize = 5000, cs_finalSize = 9000,
              cs_compressionRatio = - 80, cs_quality = 8 / 10\<rparr>"
    using b by (simp add: demoItem_def demoFile_def demoSettings_def or_default_def)
  then show "\<exists>calls r.
      convertImage demoBrowser demoItem ''png'' ''pdf'' demoSettings = (calls, Resolved r)
    \<and> r_success r \<and> 0 < blob_size (item_file demoItem)
    \<and> r_compressionStats r =
        Some \<lparr>cs_originalSize = 5000, cs_finalSize = 9000,
              cs_compressionRatio = - 80, cs_quality = 8 / 10\<rparr>"
    using c s p by blast
qed

section \<open>Thumbnails\<close>

text \<open>
  Claim C9. For every image that loads (with a drawing context at hand),
  \<open>generateThumbnail\<close> makes one encoder call, to JPEG at the quality 0.8, and resolves
  to the data URL of that call and nothing else, so it has no compression statistics. The
  canvas has the size of the single-box rule: if \<open>width / height > 1\<close> then \<open>maxSize\<close>
  by \<open>maxSize / aspect\<close>, else \<open>maxSize * aspect\<close> by \<open>maxSize\<close>.
\<close>

theorem generateThumbnail_fixed:
  assumes "loadImage env fl = Some img" and "getContext2d env" and "0 < img_height img"
  shows "\<exists>w h. (w, h) = (if img_width img / img_height img > 1
                         then (maxSize, maxSize / (img_width img / img_height img))
                         else (maxSize * (img_width img / img_height img), maxSize))
           \<and> generateThumbnail env fl (Some maxSize) =
               ([ToDataURL \<lparr>cv_width = w, cv_height = h, cv_white = False,
                            cv_source = fl, cv_drawSize = Some (w, h)\<rparr>
                   ''image/jpeg'' (Some (8 / 10))],
                Resolved (toDataURL env
                  \<lparr>cv_width = w, cv_height = h, cv_white = False,
                   cv_source = fl, cv_drawSize = Some (w, h)\<rparr>
                  ''image/jpeg'' (Some (8 / 10))))"
  using assms(1,2) by (simp add: generateThumbnail_def thumbnailSize_def Let_def)

text \<open>A 2000 by 1000 image in a box of 120.\<close>

theorem generateThumbnail_fixed_witness:
  "loadImage demoBrowser demoFile = Some \<lparr>img_width = 2000, img_height = 1000\<rparr>
   \<and> getContext2d demoBrowser \<and> (0::rat) < 1000
   \<and> generateThumbnail demoBrowser demoFile (Some 120) =
       ([ToDataURL \<lparr>cv_width = 120, cv_height = 60, cv_white = False,
                    cv_source = demoFile, cv_drawSize = Some (120, 60)\<rparr>
           ''image/jpeg'' (Some (8 / 10))],
        Resolved ''data:image/jpeg'')"
proof -
  have l: "loadImage demoBrowser demoFile = Some \<lparr>img_width = 2000, img_height = 1000\<rparr>"
    by (simp add: demoBrowser_def demoFile_def)
  have g: "getContext2d demoBrowser" by (simp add: demoBrowser_def)
  have p: "0 < img_height \<lparr>img_width = 2000, img_height = 1000\<rparr>" by simp
  from generateThumbnail_fixed [OF l g p, of 120]
  show ?thesis using l g by (simp add: demoBrowser_def)
qed

end
